theory Spec2Isabelle
  imports Complex_Main
begin

unbundle bit_operations_syntax

section \<open>Go values used by the generation queue\<close>

text \<open>
  A Go \<^verbatim>\<open>string\<close> is a sequence of bytes and is modelled as \<^typ>\<open>string\<close>; \<^verbatim>\<open>len\<close>
  counts bytes. A \<^verbatim>\<open>*string\<close> is \<^typ>\<open>string option\<close> with \<^term>\<open>None\<close> for nil.
  Go's \<^verbatim>\<open>int\<close> and \<^verbatim>\<open>int64\<close> are 64-bit two's complement; they are modelled as
  \<^typ>\<open>int\<close>, with the wrap-around written out where arithmetic can leave the range.
\<close>

definition MaxInt64 :: int where
  "MaxInt64 = 2 ^ 63 - 1"

definition MinInt64 :: int where
  "MinInt64 = - (2 ^ 63)"

definition wrap64 :: "int \<Rightarrow> int" where
  "wrap64 n = (n + 2 ^ 63) mod 2 ^ 64 - 2 ^ 63"

subsection \<open>float64\<close>

text \<open>
  A \<^verbatim>\<open>float64\<close> is either a finite value, which is a real number (a dyadic rational),
  an infinity or NaN. The two zeros are identified: no computation below divides by a zero that is the
  result of a float operation. Comparisons follow IEEE 754: every comparison with NaN is false.
\<close>

datatype f64 = Fin real | PosInf | NegInf | NaN

fun f64_lt :: "f64 \<Rightarrow> f64 \<Rightarrow> bool" where
  "f64_lt NaN _ = False"
| "f64_lt _ NaN = False"
| "f64_lt (Fin x) (Fin y) = (x < y)"
| "f64_lt (Fin x) PosInf = True"
| "f64_lt (Fin x) NegInf = False"
| "f64_lt PosInf _ = False"
| "f64_lt NegInf NegInf = False"
| "f64_lt NegInf _ = True"

fun f64_eq :: "f64 \<Rightarrow> f64 \<Rightarrow> bool" where
  "f64_eq NaN _ = False"
| "f64_eq _ NaN = False"
| "f64_eq a b = (a = b)"

definition f64_gt :: "f64 \<Rightarrow> f64 \<Rightarrow> bool" where
  "f64_gt a b = f64_lt b a"


text \<open>The builtin \<^verbatim>\<open>min\<close> and \<^verbatim>\<open>max\<close> on floats: NaN if an argument is NaN.\<close>

fun f64_min :: "f64 \<Rightarrow> f64 \<Rightarrow> f64" where
  "f64_min NaN _ = NaN"
| "f64_min _ NaN = NaN"
| "f64_min a b = (if f64_lt b a then b else a)"

fun f64_max :: "f64 \<Rightarrow> f64 \<Rightarrow> f64" where
  "f64_max NaN _ = NaN"
| "f64_max _ NaN = NaN"
| "f64_max a b = (if f64_lt a b then b else a)"

text \<open>\<^verbatim>\<open>between(value, minimum, maximum) = min(max(minimum, value), maximum)\<close>, at the
  type \<^verbatim>\<open>float64\<close>.\<close>

definition between_f64 :: "f64 \<Rightarrow> f64 \<Rightarrow> f64 \<Rightarrow> f64" where
  "between_f64 v minimum maximum = f64_min (f64_max minimum v) maximum"

subsection \<open>float64 arithmetic\<close>

text \<open>
  The result of an operation on finite values is the exact result rounded to the nearest
  value with a significand of 53 bits, ties to even, with gradual underflow below
  \<open>2\<^sup>-\<^sup>1\<^sup>0\<^sup>2\<^sup>2\<close> and overflow to infinity at \<open>2\<^sup>1\<^sup>0\<^sup>2\<^sup>4\<close>.
\<close>

definition pow2 :: "int \<Rightarrow> real" where
  "pow2 e = (if 0 \<le> e then 2 ^ nat e else 1 / 2 ^ nat (- e))"

function bitlen :: "int \<Rightarrow> int" where
  "bitlen n = (if n \<le> 0 then 0 else 1 + bitlen (n div 2))"
  by pat_completeness auto
termination
  by (relation "measure nat") auto

declare bitlen.simps [simp del]

text \<open>For \<open>x > 0\<close>, the \<open>e\<close> with \<open>2\<^sup>e \<le> x < 2\<^sup>e\<^sup>+\<^sup>1\<close>.\<close>

definition exponent_of :: "real \<Rightarrow> int" where
  "exponent_of x =
     (if 1 \<le> x then bitlen \<lfloor>x\<rfloor> - 1
      else (let j = bitlen \<lfloor>1 / x\<rfloor> - 1
            in if x = pow2 (- j) then - j else - j - 1))"

definition round_half_even :: "real \<Rightarrow> int" where
  "round_half_even x =
     (let f = \<lfloor>x\<rfloor>; d = x - of_int f
      in if d < 1 / 2 then f else if 1 / 2 < d then f + 1 else if even f then f else f + 1)"

definition f64_round :: "real \<Rightarrow> f64" where
  "f64_round x =
     (if x = 0 then Fin 0
      else (let a = \<bar>x\<bar>;
                q = pow2 (max (exponent_of a) (- 1022) - 52);
                v = of_int (round_half_even (a / q)) * q
            in if pow2 1024 \<le> v then (if x < 0 then NegInf else PosInf)
               else Fin (if x < 0 then - v else v)))"

definition f64_of_int :: "int \<Rightarrow> f64" where
  "f64_of_int n = f64_round (of_int n)"

fun f64_neg :: "f64 \<Rightarrow> f64" where
  "f64_neg (Fin x) = Fin (- x)"
| "f64_neg PosInf = NegInf"
| "f64_neg NegInf = PosInf"
| "f64_neg NaN = NaN"

fun f64_mul :: "f64 \<Rightarrow> f64 \<Rightarrow> f64" where
  "f64_mul NaN _ = NaN"
| "f64_mul _ NaN = NaN"
| "f64_mul (Fin x) (Fin y) = f64_round (x * y)"
| "f64_mul (Fin x) b = (if x = 0 then NaN else if 0 < x then b else f64_neg b)"
| "f64_mul a (Fin y) = (if y = 0 then NaN else if 0 < y then a else f64_neg a)"
| "f64_mul a b = (if a = b then PosInf else NegInf)"

text \<open>Division. A zero divisor below is always the conversion of the integer 0, the
  positive zero, so a finite nonzero value divided by it is the infinity of its sign.\<close>

fun f64_div :: "f64 \<Rightarrow> f64 \<Rightarrow> f64" where
  "f64_div NaN _ = NaN"
| "f64_div _ NaN = NaN"
| "f64_div (Fin x) (Fin y) =
     (if y = 0 then (if x = 0 then NaN else if 0 < x then PosInf else NegInf)
      else f64_round (x / y))"
| "f64_div (Fin x) b = Fin 0"
| "f64_div a (Fin y) = (if 0 \<le> y then a else f64_neg a)"
| "f64_div a b = NaN"

text \<open>
  The conversion \<^verbatim>\<open>int(x)\<close> truncates towards zero. For a value that no \<^verbatim>\<open>int\<close> holds, an
  infinity or NaN the language leaves the result to the implementation: the parameter
  \<open>impl\<close> is the implementation's answer.
\<close>

definition f64_to_int :: "(f64 \<Rightarrow> int) \<Rightarrow> f64 \<Rightarrow> int" where
  "f64_to_int impl x =
     (case x of
        Fin r \<Rightarrow>
          (let t = (if 0 \<le> r then \<lfloor>r\<rfloor> else \<lceil>r\<rceil>)
           in if MinInt64 \<le> t \<and> t \<le> MaxInt64 then t else impl x)
      | _ \<Rightarrow> impl x)"

subsection \<open>Optional strings\<close>

definition ptrStringCompare :: "string option \<Rightarrow> string option \<Rightarrow> bool" where
  "ptrStringCompare s1 s2 =
     (if s1 = None \<or> s2 = None then s1 = s2 else the s1 = the s2)"


definition safeDereference :: "string option \<Rightarrow> string" where
  "safeDereference s = (case s of None \<Rightarrow> ''<nil>'' | Some v \<Rightarrow> v)"

subsection \<open>Decimal integers: \<^verbatim>\<open>%d\<close> and \<^verbatim>\<open>strconv.ParseInt(s, 10, 64)\<close>\<close>




definition byte_of :: "char \<Rightarrow> nat" where
  "byte_of c = of_char c"

definition is_digit :: "char \<Rightarrow> bool" where
  "is_digit c = (48 \<le> byte_of c \<and> byte_of c \<le> 57)"

text \<open>The class \<^verbatim>\<open>\w\<close> of Go's regexp is ASCII only: digits, letters and the underscore.\<close>

definition is_word :: "char \<Rightarrow> bool" where
  "is_word c = (is_digit c \<or> (65 \<le> byte_of c \<and> byte_of c \<le> 90)
                 \<or> (97 \<le> byte_of c \<and> byte_of c \<le> 122) \<or> c = CHR ''_'')"

text \<open>The class \<^verbatim>\<open>\s\<close> of Go's regexp: tab, newline, form feed, carriage return, space.\<close>

definition is_space_re :: "char \<Rightarrow> bool" where
  "is_space_re c = (byte_of c \<in> {9, 10, 12, 13, 32})"

fun digits_value :: "nat \<Rightarrow> string \<Rightarrow> nat" where
  "digits_value acc [] = acc"
| "digits_value acc (c # cs) = digits_value (10 * acc + (byte_of c - 48)) cs"

datatype NumError = ErrSyntax | ErrRange

text \<open>
  \<^verbatim>\<open>strconv.ParseInt(s, 10, 64)\<close>, which \<^verbatim>\<open>strconv.Atoi\<close> equals on a 64-bit
  platform: an optional sign, then one or more decimal digits and nothing else (with an
  explicit base no underscore is accepted); a value outside the int64 range is a range error.
\<close>

definition ParseInt :: "string \<Rightarrow> NumError + int" where
  "ParseInt s =
     (let neg = (s \<noteq> [] \<and> hd s = CHR ''-'');
          ds = (if s \<noteq> [] \<and> (hd s = CHR ''+'' \<or> hd s = CHR ''-'') then tl s else s)
      in if ds = [] \<or> \<not> list_all is_digit ds then Inl ErrSyntax
         else let n = int (digits_value 0 ds); v = (if neg then - n else n)
              in if v < MinInt64 \<or> MaxInt64 < v then Inl ErrRange else Inr v)"

section \<open>Data model\<close>

text \<open>Of a \<^verbatim>\<open>discordgo.Interaction\<close> the queue reads only the identifier.\<close>

record Interaction =
  ID :: string

record Scripts =
  ADetailer :: "string list option"
  ControlNet :: "(string \<times> string) list option"

text \<open>
  \<^verbatim>\<open>entities.TextToImageRequest\<close>, restricted to the fields the functions below read or
  write. Of the always-on scripts only the argument lists are kept: the \<^verbatim>\<open>AdModel\<close> of each
  ADetailer argument, the \<^verbatim>\<open>Module\<close> and \<^verbatim>\<open>Model\<close> of each ControlNet argument.
\<close>

record TextToImageRequest =
  Prompt :: string
  NegativePrompt :: string
  Width :: int
  Height :: int
  RestoreFaces :: bool
  EnableHr :: bool
  HrScale :: f64
  HrUpscaler :: string
  HrSecondPassSteps :: int
  HrResizeX :: int
  HrResizeY :: int
  DenoisingStrength :: f64
  Seed :: int
  Subseed :: int
  SubseedStrength :: f64
  SamplerName :: string
  CFGScale :: f64
  Steps :: int
  Scripts :: Scripts

text \<open>\<^verbatim>\<open>entities.ImageGenerationRequest\<close>: the request with the generation info.\<close>

record ImageGenerationRequest = TextToImageRequest +
  Processed :: bool
  Checkpoint :: "string option"
  VAE :: "string option"
  Hypernetwork :: "string option"

text \<open>
  \<^verbatim>\<open>QueueItem\<close>. The item's own \<^verbatim>\<open>Checkpoint\<close>, \<^verbatim>\<open>VAE\<close> and \<^verbatim>\<open>Hypernetwork\<close> are named
  \<open>ItemCheckpoint\<close>, \<open>ItemVAE\<close> and \<open>ItemHypernetwork\<close> here, and the embedded request is the
  field \<open>Request\<close>. \<^verbatim>\<open>ItemType\<close> is an \<^verbatim>\<open>int\<close> with six named values.
\<close>

record QueueItem =
  Type :: int
  Request :: TextToImageRequest
  AspectRatio :: string
  DiscordInteraction :: "Interaction option"
  ItemCheckpoint :: "string option"
  ItemVAE :: "string option"
  ItemHypernetwork :: "string option"
  UseHiresFix :: bool
  HiresUpscaleRate :: f64
  HiresSteps :: int
  SamplerName1 :: string
  CfgScale :: f64

definition ItemTypeImagine :: int where "ItemTypeImagine = 0"
definition ItemTypeReroll :: int where "ItemTypeReroll = 1"
definition ItemTypeUpscale :: int where "ItemTypeUpscale = 2"
definition ItemTypeVariation :: int where "ItemTypeVariation = 3"
definition ItemTypeImg2Img :: int where "ItemTypeImg2Img = 4"
definition ItemTypeRaw :: int where "ItemTypeRaw = 5"

section \<open>The directive parser\<close>

subsection \<open>Strings\<close>

definition starts_with :: "string \<Rightarrow> string \<Rightarrow> bool" where
  "starts_with s p = (take (length p) s = p)"

text \<open>\<^verbatim>\<open>strings.Split(s, sep)\<close> for a separator of one byte: always at least one part.\<close>

fun split_on :: "char \<Rightarrow> string \<Rightarrow> string list" where
  "split_on sep [] = [[]]"
| "split_on sep (c # cs) =
     (if c = sep then [] # split_on sep cs
      else (case split_on sep cs of [] \<Rightarrow> [[c]] | x # xs \<Rightarrow> (c # x) # xs))"

text \<open>
  \<^verbatim>\<open>strings.TrimSpace\<close> removes the white space of Unicode at both ends. In UTF-8 that is one
  of six ASCII bytes, U+0085 or U+00A0 in two bytes, or U+1680, U+2000 to U+200A, U+2028,
  U+2029, U+202F, U+205F or U+3000 in three. \<open>space_rune_len\<close> is the length of such a
  character at the head of the string, 0 if there is none.
\<close>

definition space_rune_len :: "string \<Rightarrow> nat" where
  "space_rune_len s =
     (let b = map byte_of (take 3 s)
      in if b = [] then 0
         else if hd b \<in> {9, 10, 11, 12, 13, 32} then 1
         else if take 2 b = [194, 133] \<or> take 2 b = [194, 160] then 2
         else if b = [225, 154, 128] \<or> b = [226, 129, 159] \<or> b = [227, 128, 128] then 3
         else if length b = 3 \<and> take 2 b = [226, 128]
                 \<and> (b ! 2 \<in> {128 .. 138} \<or> b ! 2 \<in> {168, 169, 175}) then 3
         else 0)"

text \<open>The length of the white space character that ends the string, 0 if there is none.\<close>

definition trailing_space_len :: "string \<Rightarrow> nat" where
  "trailing_space_len s =
     (if 1 \<le> length s \<and> space_rune_len (drop (length s - 1) s) = 1 then 1
      else if 2 \<le> length s \<and> space_rune_len (drop (length s - 2) s) = 2 then 2
      else if 3 \<le> length s \<and> space_rune_len (drop (length s - 3) s) = 3 then 3
      else 0)"

function trim_left :: "string \<Rightarrow> string" where
  "trim_left s = (if space_rune_len s = 0 \<or> s = [] then s else trim_left (drop (space_rune_len s) s))"
  by pat_completeness auto
termination
  by (relation "measure length") auto

function trim_right :: "string \<Rightarrow> string" where
  "trim_right s =
     (if trailing_space_len s = 0 \<or> s = [] then s
      else trim_right (take (length s - trailing_space_len s) s))"
  by pat_completeness auto
termination
  by (relation "measure length") auto

declare trim_left.simps [simp del] trim_right.simps [simp del]

definition TrimSpace :: "string \<Rightarrow> string" where
  "TrimSpace s = trim_right (trim_left s)"

subsection \<open>The regular expressions\<close>

text \<open>
  Go's regexp takes, from left to right, the first match at the leftmost position where
  one exists, and prefers the longer alternative of a greedy operator. The expressions of
  the parser are matched by the functions below, which say where a match begins, what its
  groups hold and how long it is. No match is empty.

  \<^verbatim>\<open>keyValue = \B(?:--|EM)+(\w+)(?: ([\w.\/\\]+))?\<close>, where \<open>EM\<close> stands for the em dash, three
  bytes in UTF-8.
\<close>

definition emdash :: string where
  "emdash = [CHR 0xE2, CHR 0x80, CHR 0x94]"

text \<open>The greedy \<^verbatim>\<open>(?:--|EM)+\<close>: what is left after all the dash groups at the head.\<close>

function skip_dashes :: "string \<Rightarrow> string" where
  "skip_dashes s =
     (if starts_with s ''--'' then skip_dashes (drop 2 s)
      else if starts_with s emdash then skip_dashes (drop 3 s)
      else s)"
  by pat_completeness auto
termination
proof (relation "measure length")
  fix s :: string
  assume "starts_with s ''--''"
  then show "(drop 2 s, s) \<in> measure length"
    by (cases s) (simp_all add: starts_with_def)
next
  fix s :: string
  assume "starts_with s emdash"
  then show "(drop 3 s, s) \<in> measure length"
    by (cases s) (simp_all add: starts_with_def emdash_def)
qed simp

declare skip_dashes.simps [simp del]

definition is_value_char :: "char \<Rightarrow> bool" where
  "is_value_char c = (is_word c \<or> c = CHR ''.'' \<or> c = CHR ''/'' \<or> c = CHR 0x5C)"

text \<open>\<^verbatim>\<open>\B\<close>: the bytes before and after the position are both word bytes or both not; beyond
  either end of the text there is no word byte.\<close>

definition not_word_boundary :: "char option \<Rightarrow> string \<Rightarrow> bool" where
  "not_word_boundary prev s =
     ((case prev of None \<Rightarrow> False | Some c \<Rightarrow> is_word c)
       = (case s of [] \<Rightarrow> False | c # _ \<Rightarrow> is_word c))"

text \<open>
  A match of \<^verbatim>\<open>keyValue\<close> at the head of \<open>s\<close>, with \<open>prev\<close> the byte before it: the key, the
  value (empty when the optional group takes no part) and the length of the match.
  After the dash groups a word byte must follow, and giving back a dash group never helps,
  since a dash is no word byte.
\<close>

definition match_keyValue :: "char option \<Rightarrow> string \<Rightarrow> (string \<times> string \<times> nat) option" where
  "match_keyValue prev s =
     (let r = skip_dashes s;
          key = takeWhile is_word r;
          r' = dropWhile is_word r;
          val = (if r' \<noteq> [] \<and> hd r' = CHR '' '' then takeWhile is_value_char (tl r') else [])
      in if \<not> not_word_boundary prev s \<or> length r = length s \<or> key = [] then None
         else Some (key, val,
                    (length s - length r) + length key + (if val = [] then 0 else 1 + length val)))"

text \<open>
  The scan of the text for all matches, none overlapping: \<open>prev\<close> is the byte before the
  head, \<open>k\<close> the number of bytes of the head that still belong to the last match. The
  result is the list of the groups of the matches, \<^verbatim>\<open>FindAllStringSubmatch\<close>, and the text
  without the matches, \<^verbatim>\<open>ReplaceAllString\<close> with the empty string.
\<close>

fun scan_keyValue :: "char option \<Rightarrow> nat \<Rightarrow> string \<Rightarrow> (string \<times> string) list \<times> string" where
  "scan_keyValue prev k [] = ([], [])"
| "scan_keyValue prev (Suc k) (c # cs) = scan_keyValue (Some c) k cs"
| "scan_keyValue prev 0 (c # cs) =
     (case match_keyValue prev (c # cs) of
        Some (key, val, n) \<Rightarrow>
          (case scan_keyValue (Some c) (n - 1) cs of (ms, out) \<Rightarrow> ((key, val) # ms, out))
      | None \<Rightarrow>
          (case scan_keyValue (Some c) 0 cs of (ms, out) \<Rightarrow> (ms, c # out)))"

text \<open>
  The expressions of the older extractors have the shape \<^verbatim>\<open>\s?--name (group)\s?\<close>. The
  parameter \<open>grp\<close> gives the length of the group at the head of a string, 0 when the group
  does not match there.
\<close>

definition match_directive :: "string \<Rightarrow> (string \<Rightarrow> nat) \<Rightarrow> string \<Rightarrow> (string \<times> nat) option" where
  "match_directive name grp s =
     (let lead = (if s \<noteq> [] \<and> is_space_re (hd s) \<and> starts_with (tl s) name
                     \<and> grp (drop (length name) (tl s)) \<noteq> 0 then 1 else 0 :: nat);
          r = drop lead s;
          g = grp (drop (length name) r);
          r' = drop (length name + g) r
      in if starts_with r name \<and> g \<noteq> 0
         then Some (take g (drop (length name) r),
                    lead + length name + g + (if r' \<noteq> [] \<and> is_space_re (hd r') then 1 else 0))
         else None)"

text \<open>\<^verbatim>\<open>(\d+)\<close> and \<^verbatim>\<open>(\d\d?\.?\d?)\<close>.\<close>

definition group_digits :: "string \<Rightarrow> nat" where
  "group_digits s = length (takeWhile is_digit s)"


text \<open>\<^verbatim>\<open>FindStringSubmatch\<close>: the group of the leftmost match.\<close>

fun FindStringSubmatch :: "(string \<Rightarrow> (string \<times> nat) option) \<Rightarrow> string \<Rightarrow> string option" where
  "FindStringSubmatch m [] = map_option fst (m [])"
| "FindStringSubmatch m (c # cs) =
     (case m (c # cs) of Some (g, n) \<Rightarrow> Some g | None \<Rightarrow> FindStringSubmatch m cs)"

text \<open>\<^verbatim>\<open>ReplaceAllString(s, "")\<close>; \<open>k\<close> counts the bytes of the head inside the last match.\<close>

fun ReplaceAllString :: "(string \<Rightarrow> (string \<times> nat) option) \<Rightarrow> nat \<Rightarrow> string \<Rightarrow> string" where
  "ReplaceAllString m k [] = []"
| "ReplaceAllString m (Suc k) (c # cs) = ReplaceAllString m k cs"
| "ReplaceAllString m 0 (c # cs) =
     (case m (c # cs) of
        Some (g, n) \<Rightarrow> ReplaceAllString m (n - 1) cs
      | None \<Rightarrow> c # ReplaceAllString m 0 cs)"



definition seedRegex :: "string \<Rightarrow> (string \<times> nat) option" where
  "seedRegex = match_directive ''--seed '' group_digits"

subsection \<open>Directives\<close>

text \<open>\<^verbatim>\<open>extractKeyValuePairsFromPrompt\<close>: a later match of a key overwrites an earlier one.\<close>

definition extractKeyValuePairsFromPrompt :: "string \<Rightarrow> (string \<rightharpoonup> string) \<times> string" where
  "extractKeyValuePairsFromPrompt prompt =
     (case scan_keyValue None 0 prompt of
        (ms, out) \<Rightarrow> (fold (\<lambda>m parameters. parameters(fst m \<mapsto> snd m)) ms Map.empty, TrimSpace out))"

text \<open>\<^verbatim>\<open>(x + 7) & (-8)\<close> on the 64-bit \<^verbatim>\<open>int\<close>.\<close>

definition round_up_8 :: "int \<Rightarrow> int" where
  "round_up_8 x = wrap64 (x + 7) AND (- 8)"

definition aspectRatioCalculation :: "(f64 \<Rightarrow> int) \<Rightarrow> string \<Rightarrow> int \<Rightarrow> int \<Rightarrow> int \<times> int" where
  "aspectRatioCalculation impl aspectRatio w h =
     (case split_on CHR '':'' aspectRatio of
        [a, b] \<Rightarrow>
          (case ParseInt a of
             Inl e \<Rightarrow> (w, h)
           | Inr widthRatio \<Rightarrow>
               (case ParseInt b of
                  Inl e \<Rightarrow> (w, h)
                | Inr heightRatio \<Rightarrow>
                    if widthRatio > heightRatio
                    then (round_up_8
                            (f64_to_int impl
                               (f64_mul (f64_of_int h)
                                  (f64_div (f64_of_int widthRatio) (f64_of_int heightRatio)))), h)
                    else if heightRatio > widthRatio
                    then (w, round_up_8
                               (f64_to_int impl
                                  (f64_mul (f64_of_int w)
                                     (f64_div (f64_of_int heightRatio) (f64_of_int widthRatio)))))
                    else (w, h)))
      | _ \<Rightarrow> (w, h))"



definition extractSeedFromPrompt :: "string \<Rightarrow> int \<Rightarrow> NumError + string \<times> int" where
  "extractSeedFromPrompt prompt defaultSeed =
     (let SeedMaxvalue = MaxInt64
      in case FindStringSubmatch seedRegex prompt of
           Some v \<Rightarrow>
             (case ParseInt v of
                Inl err \<Rightarrow> Inl err
              | Inr s \<Rightarrow> Inr (ReplaceAllString seedRegex 0 prompt, min SeedMaxvalue s))
         | None \<Rightarrow>
             if defaultSeed = 0 then Inr (prompt, - 1)
             else Inr (prompt, min SeedMaxvalue defaultSeed))"


definition DefaultNegative :: string where
  "DefaultNegative =
     ''ugly, tiling, poorly drawn hands, poorly drawn feet, poorly drawn face, out of frame, ''
     @ ''mutation, mutated, extra limbs, extra legs, extra arms, disfigured, deformed, cross-eye, ''
     @ ''body out of frame, blurry, bad art, bad anatomy, blurred, text, watermark, grainy''"

definition initializedWidth :: int where "initializedWidth = 512"
definition initializedHeight :: int where "initializedHeight = 512"

definition hires_size :: "(f64 \<Rightarrow> int) \<Rightarrow> int \<Rightarrow> f64 \<Rightarrow> int" where
  "hires_size impl adjusted scale = f64_to_int impl (f64_mul (f64_of_int adjusted) scale)"

text \<open>
  The new request, with the default width and height, negative prompt and sampler. The
  parameters \<open>defaultWidth\<close> and \<open>defaultHeight\<close> are the answers of the two reads of the
  default settings, \<open>None\<close> for a read that fails, which leaves 0.
\<close>

definition new_generation :: "int option \<Rightarrow> int option \<Rightarrow> QueueItem \<Rightarrow> ImageGenerationRequest" where
  "new_generation defaultWidth defaultHeight c =
     (let g0 = \<lparr>Prompt = Prompt (Request c), NegativePrompt = NegativePrompt (Request c),
                Width = initializedWidth, Height = initializedHeight,
                RestoreFaces = RestoreFaces (Request c), EnableHr = UseHiresFix c,
                HrScale = between_f64 (HiresUpscaleRate c) (Fin 1) (Fin 2),
                HrUpscaler = ''R-ESRGAN 2x+'', HrSecondPassSteps = HiresSteps c,
                HrResizeX = initializedWidth, HrResizeY = initializedHeight,
                DenoisingStrength = DenoisingStrength (Request c), Seed = Seed (Request c),
                Subseed = - 1, SubseedStrength = Fin 0, SamplerName = SamplerName1 c,
                CFGScale = CfgScale c, Steps = Steps (Request c),
                Scripts = \<lparr>ADetailer = None, ControlNet = None\<rparr>,
                Processed = False, Checkpoint = ItemCheckpoint c, VAE = ItemVAE c,
                Hypernetwork = ItemHypernetwork c\<rparr>;
          g1 = g0\<lparr>Width := (case defaultWidth of None \<Rightarrow> 0 | Some w \<Rightarrow> w),
                  Height := (case defaultHeight of None \<Rightarrow> 0 | Some h \<Rightarrow> h)\<rparr>;
          g2 = (if NegativePrompt (Request c) = [] then g1\<lparr>NegativePrompt := DefaultNegative\<rparr> else g1)
      in if SamplerName1 c = [] then g2\<lparr>SamplerName := ''Euler a''\<rparr> else g2)"

text \<open>The aspect ratio: the one of the item unless it is empty or \<open>1:1\<close>, else the directive.\<close>

definition directive_ar ::
    "(f64 \<Rightarrow> int) \<Rightarrow> QueueItem \<Rightarrow> (string \<rightharpoonup> string) \<Rightarrow> ImageGenerationRequest
       \<Rightarrow> ImageGenerationRequest" where
  "directive_ar impl c parameters g =
     (let defaultWidth = Width g; defaultHeight = Height g
      in if AspectRatio c \<noteq> [] \<and> AspectRatio c \<noteq> ''1:1''
         then g\<lparr>Width := fst (aspectRatioCalculation impl (AspectRatio c) defaultWidth defaultHeight),
                Height := snd (aspectRatioCalculation impl (AspectRatio c) defaultWidth defaultHeight)\<rparr>
         else (case parameters ''ar'' of
                 None \<Rightarrow> g
               | Some aspectRatio \<Rightarrow>
                   g\<lparr>Width := fst (aspectRatioCalculation impl aspectRatio defaultWidth defaultHeight),
                     Height := snd (aspectRatioCalculation impl aspectRatio defaultWidth defaultHeight)\<rparr>))"

definition hires_fix ::
    "(f64 \<Rightarrow> int) \<Rightarrow> int \<Rightarrow> int \<Rightarrow> ImageGenerationRequest \<Rightarrow> ImageGenerationRequest" where
  "hires_fix impl adjustedWidth adjustedHeight g =
     (if EnableHr g \<and> f64_gt (HrScale g) (Fin 1)
      then g\<lparr>HrResizeX := hires_size impl adjustedWidth (HrScale g),
             HrResizeY := hires_size impl adjustedHeight (HrScale g)\<rparr>
      else g\<lparr>EnableHr := False, HrResizeX := adjustedWidth, HrResizeY := adjustedHeight\<rparr>)"

definition directive_zoom ::
    "(string \<Rightarrow> NumError + f64) \<Rightarrow> (f64 \<Rightarrow> int) \<Rightarrow> (string \<rightharpoonup> string) \<Rightarrow> int \<Rightarrow> int
       \<Rightarrow> ImageGenerationRequest \<Rightarrow> ImageGenerationRequest" where
  "directive_zoom parseFloat impl parameters adjustedWidth adjustedHeight g =
     (case parameters ''zoom'' of
        None \<Rightarrow> g
      | Some zoom \<Rightarrow>
          (case parseFloat zoom of
             Inl err \<Rightarrow> g
           | Inr zoomScale \<Rightarrow>
               g\<lparr>EnableHr := True,
                 HrScale := between_f64 zoomScale (Fin 1) (Fin 2),
                 HrResizeX := hires_size impl adjustedWidth (between_f64 zoomScale (Fin 1) (Fin 2)),
                 HrResizeY := hires_size impl adjustedHeight (between_f64 zoomScale (Fin 1) (Fin 2))\<rparr>))"

definition directive_step ::
    "(string \<rightharpoonup> string) \<Rightarrow> ImageGenerationRequest \<Rightarrow> ImageGenerationRequest" where
  "directive_step parameters g =
     (case parameters ''step'' of
        None \<Rightarrow> g
      | Some step \<Rightarrow> (case ParseInt step of Inl err \<Rightarrow> g | Inr stepInt \<Rightarrow> g\<lparr>Steps := stepInt\<rparr>))"

definition directive_cfgscale ::
    "(string \<Rightarrow> NumError + f64) \<Rightarrow> (string \<rightharpoonup> string) \<Rightarrow> ImageGenerationRequest
       \<Rightarrow> ImageGenerationRequest" where
  "directive_cfgscale parseFloat parameters g =
     (case parameters ''cfgscale'' of
        None \<Rightarrow> g
      | Some cfgscale \<Rightarrow>
          (case parseFloat cfgscale of
             Inl err \<Rightarrow> g
           | Inr cfgScaleFloat \<Rightarrow> g\<lparr>CFGScale := cfgScaleFloat\<rparr>))"

definition directive_seed ::
    "(string \<rightharpoonup> string) \<Rightarrow> ImageGenerationRequest \<Rightarrow> ImageGenerationRequest" where
  "directive_seed parameters g =
     (case parameters ''seed'' of
        None \<Rightarrow> g
      | Some seed \<Rightarrow> (case ParseInt seed of Inl err \<Rightarrow> g | Inr seedInt \<Rightarrow> g\<lparr>Seed := seedInt\<rparr>))"

text \<open>
  \<^verbatim>\<open>processCurrentImagine\<close>, from the new generation request to the last directive: the
  request the function has built when it asks the backend for its configuration, in the
  steps above.
\<close>

definition processCurrentImagine_parameters ::
    "(string \<Rightarrow> NumError + f64) \<Rightarrow> (f64 \<Rightarrow> int) \<Rightarrow> int option \<Rightarrow> int option \<Rightarrow> QueueItem
       \<Rightarrow> ImageGenerationRequest" where
  "processCurrentImagine_parameters parseFloat impl defaultWidth defaultHeight c =
     (let g3 = new_generation defaultWidth defaultHeight c;
          parameters = fst (extractKeyValuePairsFromPrompt (Prompt g3));
          g4 = g3\<lparr>Prompt := snd (extractKeyValuePairsFromPrompt (Prompt g3))\<rparr>;
          g5 = directive_ar impl c parameters g4;
          adjustedWidth = Width g5;
          adjustedHeight = Height g5;
          g6 = hires_fix impl adjustedWidth adjustedHeight g5;
          g7 = directive_zoom parseFloat impl parameters adjustedWidth adjustedHeight g6;
          g8 = directive_step parameters g7;
          g9 = directive_cfgscale parseFloat parameters g8
      in directive_seed parameters g9)"


section \<open>The status message\<close>





datatype Panic = PanicNilInteraction | PanicNilDereference


section \<open>The job queue\<close>

text \<open>
  The FIFO is a buffered channel: its buffer is a list, oldest first, and \<^verbatim>\<open>New\<close> fixes its
  capacity. A send on a channel whose buffer is full does not return until a receiver
  makes room; \<open>Blocks\<close> is that outcome.
\<close>

definition queue_capacity :: nat where
  "queue_capacity = 100"

definition nai_queue_capacity :: nat where
  "nai_queue_capacity = 24"

datatype 'a outcome = Returns 'a | Blocks

datatype LogEntry =
    WarnCurrentNotNil
  | WarnQueueEmpty
  | LogUnknownType int
  | LogWaiting

text \<open>The goroutines that \<^verbatim>\<open>pullNextInQueue\<close> starts, each with the item that is current.\<close>

datatype Worker =
    ProcessCurrentImagine QueueItem
  | ProcessImg2ImgImagine QueueItem
  | ProcessUpscaleImagine QueueItem

text \<open>
  \<^verbatim>\<open>queueImplementation\<close>: the channel, the current item and the cancellation map, and what
  an observer sees of a run: the log, the goroutines started and not yet finished, and the
  interactions an error reply was sent to.
\<close>

record queueImplementation =
  queue :: "QueueItem list"
  currentImagine :: "QueueItem option"
  cancelledItems :: "string \<rightharpoonup> bool"
  logged :: "LogEntry list"
  workers :: "Worker list"
  errorReplies :: "Interaction list"

definition New :: queueImplementation where
  "New = \<lparr>queue = [], currentImagine = None, cancelledItems = Map.empty,
          logged = [], workers = [], errorReplies = []\<rparr>"

text \<open>Reading a \<^verbatim>\<open>map[string]bool\<close>: a missing key reads as false.\<close>

definition is_cancelled :: "(string \<rightharpoonup> bool) \<Rightarrow> string \<Rightarrow> bool" where
  "is_cancelled m k = (case m k of None \<Rightarrow> False | Some b \<Rightarrow> b)"

text \<open>\<^verbatim>\<open>AddImagine\<close> sends without looking at the length, and never returns an error.\<close>

definition AddImagine ::
    "queueImplementation \<Rightarrow> QueueItem \<Rightarrow> (queueImplementation \<times> int \<times> string option) outcome" where
  "AddImagine q item =
     (if length (queue q) < queue_capacity
      then (let q' = q\<lparr>queue := queue q @ [item]\<rparr>
            in Returns (q', int (length (queue q')), None))
      else Blocks)"

text \<open>\<^verbatim>\<open>NAIQueue\<close>, the queue of the second backend, and its \<^verbatim>\<open>Add\<close>.\<close>

record 'i NAIQueue =
  nai_queue :: "'i list"
  nai_current :: "'i option"
  nai_cancelled :: "string \<rightharpoonup> bool"

definition Add :: "'i NAIQueue \<Rightarrow> 'i \<Rightarrow> ('i NAIQueue \<times> int \<times> string option) outcome" where
  "Add q item =
     (if length (nai_queue q) = nai_queue_capacity
      then Returns (q, - 1, Some ''queue is full'')
      else (let q' = q\<lparr>nai_queue := nai_queue q @ [item]\<rparr>
            in Returns (q', int (length (nai_queue q')), None)))"

text \<open>\<^verbatim>\<open>done\<close> clears the current item.\<close>

definition done_imagine :: "queueImplementation \<Rightarrow> queueImplementation" where
  "done_imagine q = q\<lparr>currentImagine := None\<rparr>"

text \<open>\<^verbatim>\<open>RemoveFromQueue\<close> marks the identifier, whatever the state of its job.\<close>

definition RemoveFromQueue :: "queueImplementation \<Rightarrow> string \<Rightarrow> queueImplementation" where
  "RemoveFromQueue q messageInteractionID =
     q\<lparr>cancelledItems := (cancelledItems q)(messageInteractionID \<mapsto> True)\<rparr>"

text \<open>
  \<^verbatim>\<open>pullNextInQueue\<close>. The loop runs while the channel holds an item. The receive of the
  \<^verbatim>\<open>select\<close> is always ready there, since this loop is the only receiver. \<open>Inl\<close> is the
  panic on an item without interaction.
\<close>

function pullNextInQueue :: "queueImplementation \<Rightarrow> Panic + queueImplementation" where
  "pullNextInQueue q =
     (case queue q of
        [] \<Rightarrow> Inr q
      | item # rest \<Rightarrow>
          if currentImagine q \<noteq> None then Inr (q\<lparr>logged := logged q @ [WarnCurrentNotNil]\<rparr>)
          else
            (case DiscordInteraction item of
               None \<Rightarrow> Inl PanicNilInteraction
             | Some interaction \<Rightarrow>
                 if is_cancelled (cancelledItems q) (ID interaction)
                 then Inr (done_imagine
                        (q\<lparr>queue := rest, currentImagine := Some item,
                           cancelledItems := (cancelledItems q)(ID interaction := None)\<rparr>))
                 else if Type item \<in> {ItemTypeImagine, ItemTypeReroll, ItemTypeVariation, ItemTypeRaw}
                 then pullNextInQueue
                        (q\<lparr>queue := rest, currentImagine := Some item,
                           workers := workers q @ [ProcessCurrentImagine item]\<rparr>)
                 else if Type item = ItemTypeImg2Img
                 then pullNextInQueue
                        (q\<lparr>queue := rest, currentImagine := Some item,
                           workers := workers q @ [ProcessImg2ImgImagine item]\<rparr>)
                 else if Type item = ItemTypeUpscale
                 then pullNextInQueue
                        (q\<lparr>queue := rest, currentImagine := Some item,
                           workers := workers q @ [ProcessUpscaleImagine item]\<rparr>)
                 else pullNextInQueue
                        (done_imagine
                          (q\<lparr>queue := rest, currentImagine := Some item,
                             errorReplies := errorReplies q @ [interaction],
                             logged := logged q @ [LogUnknownType (Type item)]\<rparr>))))"
  by pat_completeness auto
termination
  by (relation "measure (\<lambda>q. length (queue q))") (auto simp: done_imagine_def)

declare pullNextInQueue.simps [simp del]

text \<open>
  One tick of \<^verbatim>\<open>StartPolling\<close>, with its flag \<^verbatim>\<open>wait\<close>: a pull when nothing is current,
  else one line in the log the first time.
\<close>

definition poll_tick ::
    "queueImplementation \<times> bool \<Rightarrow> Panic + (queueImplementation \<times> bool)" where
  "poll_tick qw =
     (case qw of (q, wait) \<Rightarrow>
        if currentImagine q = None
        then (case pullNextInQueue q of Inl p \<Rightarrow> Inl p | Inr q' \<Rightarrow> Inr (q', False))
        else if \<not> wait then Inr (q\<lparr>logged := logged q @ [LogWaiting]\<rparr>, True)
        else Inr (q, wait))"

text \<open>
  How a started goroutine ends. \<^verbatim>\<open>processCurrentImagine\<close> defers \<^verbatim>\<open>q.done()\<close> first, so
  every return of its body, after success, failure or an interrupt, runs it;
  \<^verbatim>\<open>processImg2ImgImagine\<close> calls \<^verbatim>\<open>processCurrentImagine\<close>.
\<close>

datatype Completion = Succeeded | Failed | Interrupted

text \<open>
  Modelled from the spec: the body of \<^verbatim>\<open>processUpscaleImagine\<close> is not among the sources;
  by the spec every completion of the current job goes through the one done transition,
  and the model ends that goroutine, like the other two, with \<^verbatim>\<open>done\<close>.
\<close>

definition worker_finish ::
    "queueImplementation \<Rightarrow> Worker \<Rightarrow> Completion \<Rightarrow> queueImplementation" where
  "worker_finish q w c = done_imagine (q\<lparr>workers := remove1 w (workers q)\<rparr>)"

text \<open>
  The states of a run: callers enqueue and cancel, the polling loop ticks, a started
  goroutine finishes. Each step is one call, taken as atomic.
\<close>

inductive reachable :: "queueImplementation \<Rightarrow> bool" where
  reach_New: "reachable New"
| reach_AddImagine: "reachable q \<Longrightarrow> AddImagine q item = Returns (q', pos, err) \<Longrightarrow> reachable q'"
| reach_RemoveFromQueue: "reachable q \<Longrightarrow> reachable (RemoveFromQueue q k)"
| reach_tick: "reachable q \<Longrightarrow> poll_tick (q, wait) = Inr (q', wait') \<Longrightarrow> reachable q'"
| reach_finish: "reachable q \<Longrightarrow> w \<in> set (workers q) \<Longrightarrow> reachable (worker_finish q w c)"

text \<open>The job a goroutine was started for.\<close>

fun worker_item :: "Worker \<Rightarrow> QueueItem" where
  "worker_item (ProcessCurrentImagine i) = i"
| "worker_item (ProcessImg2ImgImagine i) = i"
| "worker_item (ProcessUpscaleImagine i) = i"

text \<open>
  One job in flight: no goroutine runs while nothing is current, and while an item is
  current exactly one goroutine runs, on that item. So an item is never current without
  the goroutine that will clear the slot when it ends.
\<close>

definition one_in_flight :: "queueImplementation \<Rightarrow> bool" where
  "one_in_flight q =
     (case currentImagine q of
        None \<Rightarrow> workers q = []
      | Some i \<Rightarrow> length (workers q) = 1 \<and> list_all (\<lambda>w. worker_item w = i) (workers q))"

text \<open>What \<^verbatim>\<open>pullNextInQueue\<close> leaves after it started a goroutine for the head item: the
  next turn of its loop finds the item current, logs the warning if an item is left, and
  returns.\<close>

definition dispatch ::
    "queueImplementation \<Rightarrow> QueueItem \<Rightarrow> QueueItem list \<Rightarrow> Worker \<Rightarrow> queueImplementation" where
  "dispatch q item rest w =
     (let q1 = q\<lparr>queue := rest, currentImagine := Some item, workers := workers q @ [w]\<rparr>
      in if rest = [] then q1 else q1\<lparr>logged := logged q1 @ [WarnCurrentNotNil]\<rparr>)"

text \<open>Example data: a job of kind imagine from the interaction \<open>a\<close>.\<close>

definition example_request :: TextToImageRequest where
  "example_request =
     \<lparr>Prompt = ''a cat'', NegativePrompt = [], Width = 0, Height = 0,
      RestoreFaces = False, EnableHr = False, HrScale = Fin 1, HrUpscaler = ''R-ESRGAN 2x+'',
      HrSecondPassSteps = 20, HrResizeX = 0, HrResizeY = 0, DenoisingStrength = Fin (7 / 10),
      Seed = - 1, Subseed = 0, SubseedStrength = Fin 0, SamplerName = ''Euler a'',
      CFGScale = Fin 7, Steps = 20, Scripts = \<lparr>ADetailer = None, ControlNet = None\<rparr>\<rparr>"

definition example_item :: QueueItem where
  "example_item =
     \<lparr>Type = ItemTypeImagine, Request = example_request, AspectRatio = [],
      DiscordInteraction = Some \<lparr>ID = ''a''\<rparr>,
      ItemCheckpoint = None, ItemVAE = None, ItemHypernetwork = None,
      UseHiresFix = False, HiresUpscaleRate = Fin 1, HiresSteps = 20, SamplerName1 = [],
      CfgScale = Fin 7\<rparr>"

definition example_busy :: queueImplementation where
  "example_busy = New\<lparr>currentImagine := Some example_item,
                      workers := [ProcessCurrentImagine example_item]\<rparr>"

definition example_cancelled :: queueImplementation where
  "example_cancelled = New\<lparr>queue := [example_item], cancelledItems := [''a'' \<mapsto> True]\<rparr>"

text \<open>Example data: a second job, from the interaction \<open>b\<close>, that waits while the first is
  current; and a job of a kind that is not known.\<close>

definition example_second :: QueueItem where
  "example_second = example_item\<lparr>DiscordInteraction := Some \<lparr>ID = ''b''\<rparr>\<rparr>"

definition example_waiting :: queueImplementation where
  "example_waiting =
     New\<lparr>queue := [example_second], currentImagine := Some example_item,
         workers := [ProcessCurrentImagine example_item], logged := [WarnCurrentNotNil]\<rparr>"

definition example_unknown_item :: QueueItem where
  "example_unknown_item = example_item\<lparr>Type := 9\<rparr>"

definition example_unknown :: queueImplementation where
  "example_unknown = New\<lparr>queue := [example_unknown_item]\<rparr>"

section \<open>The progress poller\<close>

text \<open>
  \<^verbatim>\<open>updateProgressBar\<close> waits in a \<^verbatim>\<open>select\<close> for one of four events. An event carries the
  answers of the calls its branch makes: for a tick the progress query, the two memory
  queries and the edit of the status message; for an interrupt whether the channel was
  open, the backend's interrupt call and the edit. An answer \<open>Some e\<close> or \<open>Inl e\<close> is the
  error \<open>e\<close>.
\<close>

datatype PollEvent =
    EvGenerationDone
  | EvInterrupt bool "string option" "string option"
  | EvTick "string + f64" "string + (string \<times> string)" "string + (string \<times> string)" "string option"
  | EvTimeout

datatype PollerLog =
    LogProgressError string
  | LogMemoryError string
  | LogEditError string
  | LogTimeout

text \<open>What the poller did: status edits (attempted, in order), the error messages shown to the
  user through \<^verbatim>\<open>handlers.ErrorEdit\<close>, backend interrupt calls, and the log.\<close>

record PollerTrace =
  statusEdits :: "string list"
  errorEdits :: "string list"
  interruptCalls :: nat
  pollerLog :: "PollerLog list"

datatype PollerStatus = Waiting | Returned

text \<open>
  The loop over the events that fire. \<open>Returned\<close> ends it: the events after that one are
  not looked at. \<open>Waiting\<close> is the loop blocked in its \<^verbatim>\<open>select\<close> with no event left.
  The parameter \<open>imagineMessageSimple\<close> renders the status text from the progress and the
  two memory readouts; its source is not part of the queue package.
\<close>

fun updateProgressBar ::
    "(f64 \<Rightarrow> string option \<Rightarrow> string option \<Rightarrow> string) \<Rightarrow> PollEvent list \<Rightarrow> PollerTrace
       \<Rightarrow> PollerStatus \<times> PollerTrace" where
  "updateProgressBar imagineMessageSimple [] t = (Waiting, t)"
| "updateProgressBar imagineMessageSimple (EvGenerationDone # evs) t = (Returned, t)"
| "updateProgressBar imagineMessageSimple (EvInterrupt ok interruptErr editErr # evs) t =
     (if \<not> ok then (Returned, t)
      else (case interruptErr of
              Some e \<Rightarrow>
                (Returned, t\<lparr>interruptCalls := interruptCalls t + 1,
                              errorEdits := errorEdits t @ [''Error interrupting: '' @ e]\<rparr>)
            | None \<Rightarrow>
                (Returned, t\<lparr>interruptCalls := interruptCalls t + 1,
                              statusEdits := statusEdits t @ [''Generation Interrupted'']\<rparr>)))"
| "updateProgressBar imagineMessageSimple (EvTick progress mem1 mem2 editErr # evs) t =
     (case progress of
        Inl progressErr \<Rightarrow>
          (Returned, t\<lparr>pollerLog := pollerLog t @ [LogProgressError progressErr],
                        errorEdits := errorEdits t @ [''Error getting current progress: '' @ progressErr]\<rparr>)
      | Inr p \<Rightarrow>
          if f64_eq p (Fin 0) then updateProgressBar imagineMessageSimple evs t
          else
            (let (ram1, cuda, log1) =
                   (case mem1 of Inl e \<Rightarrow> (None, None, [LogMemoryError e])
                               | Inr (r, c) \<Rightarrow> (Some r, Some c, []));
                 (ram, log2) =
                   (case mem2 of Inl e \<Rightarrow> (ram1, [LogMemoryError e])
                               | Inr (r, c) \<Rightarrow> (Some r, []));
                 progressContent = imagineMessageSimple p ram cuda;
                 t' = t\<lparr>pollerLog := pollerLog t @ log1 @ log2,
                         statusEdits := statusEdits t @ [progressContent]\<rparr>
             in (case editErr of
                   Some e \<Rightarrow> (Returned, t'\<lparr>pollerLog := pollerLog t' @ [LogEditError e]\<rparr>)
                 | None \<Rightarrow> updateProgressBar imagineMessageSimple evs t')))"
| "updateProgressBar imagineMessageSimple (EvTimeout # evs) t =
     (Returned, t\<lparr>pollerLog := pollerLog t @ [LogTimeout],
                   errorEdits := errorEdits t @ [''Timeout reached'']\<rparr>)"

text \<open>A tick whose progress query answers zero.\<close>

fun zero_tick :: "PollEvent \<Rightarrow> bool" where
  "zero_tick (EvTick (Inr p) mem1 mem2 editErr) = f64_eq p (Fin 0)"
| "zero_tick _ = False"

text \<open>Example data: three ticks with progress zero, and a renderer.\<close>

definition example_trace :: PollerTrace where
  "example_trace = \<lparr>statusEdits = [], errorEdits = [], interruptCalls = 0, pollerLog = []\<rparr>"

definition example_zero :: PollEvent where
  "example_zero = EvTick (Inr (Fin 0)) (Inl ''no memory'') (Inl ''no memory'') None"

definition example_render :: "f64 \<Rightarrow> string option \<Rightarrow> string option \<Rightarrow> string" where
  "example_render p ram cuda = ''rendering''"

section \<open>The model reconciler\<close>

text \<open>\<^verbatim>\<open>entities.Config\<close>: the three model slots, each a \<^verbatim>\<open>*string\<close>.\<close>

record Config =
  SDModelCheckpoint :: "string option"
  SDVae :: "string option"
  SDHypernetwork :: "string option"

text \<open>The caches that implement \<^verbatim>\<open>Cacheable\<close>; \<^verbatim>\<open>lookupModel\<close> switches on their type.\<close>

datatype Cacheable = SDModels | LoraModels | VAEModels | HypernetworkModels | EmbeddingModels

text \<open>
  The inventory lookup of one name, a parameter of the model: \<^verbatim>\<open>c.GetCache\<close> fails, or
  \<^verbatim>\<open>fuzzy.FindFrom\<close> has a best match, whose entry in the cache is given, or it has none.
\<close>

datatype Resolved = CacheError string | Match string | NoMatch

definition toLoad_of :: "Cacheable \<Rightarrow> ImageGenerationRequest \<Rightarrow> string option" where
  "toLoad_of c generation =
     (case c of SDModels \<Rightarrow> Checkpoint generation
              | VAEModels \<Rightarrow> VAE generation
              | HypernetworkModels \<Rightarrow> Hypernetwork generation
              | _ \<Rightarrow> None)"

definition assign_POST :: "Cacheable \<Rightarrow> string option \<Rightarrow> Config \<Rightarrow> Config" where
  "assign_POST c toLoad POST =
     (case c of SDModels \<Rightarrow> POST\<lparr>SDModelCheckpoint := toLoad\<rparr>
              | VAEModels \<Rightarrow> POST\<lparr>SDVae := toLoad\<rparr>
              | HypernetworkModels \<Rightarrow> POST\<lparr>SDHypernetwork := toLoad\<rparr>
              | _ \<Rightarrow> POST)"

text \<open>
  The loop of \<^verbatim>\<open>lookupModel\<close> over the caches, with the patch \<^verbatim>\<open>POST\<close> built so far. The
  comparison of the requested name with the loaded one only writes a log line, so the
  live configuration \<open>config\<close> has no part in the result. A failed cache lookup is the
  \<^verbatim>\<open>continue\<close>, which leaves the slot of the patch as it is.
\<close>

fun lookupModel_loop ::
    "(Cacheable \<Rightarrow> string \<Rightarrow> Resolved) \<Rightarrow> ImageGenerationRequest \<Rightarrow> Config \<Rightarrow> Cacheable list
       \<Rightarrow> Config \<Rightarrow> Config" where
  "lookupModel_loop resolve generation config [] POST = POST"
| "lookupModel_loop resolve generation config (c # cs) POST =
     (case toLoad_of c generation of
        None \<Rightarrow> lookupModel_loop resolve generation config cs (assign_POST c None POST)
      | Some name \<Rightarrow>
          if name = [] then lookupModel_loop resolve generation config cs (assign_POST c None POST)
          else if name = ''None''
          then lookupModel_loop resolve generation config cs (assign_POST c (Some name) POST)
          else (case resolve c name of
                  CacheError e \<Rightarrow> lookupModel_loop resolve generation config cs POST
                | Match firstResult \<Rightarrow>
                    lookupModel_loop resolve generation config cs (assign_POST c (Some firstResult) POST)
                | NoMatch \<Rightarrow>
                    lookupModel_loop resolve generation config cs (assign_POST c (Some name) POST)))"

definition lookupModel ::
    "(Cacheable \<Rightarrow> string \<Rightarrow> Resolved) \<Rightarrow> ImageGenerationRequest \<Rightarrow> Config \<Rightarrow> Cacheable list
       \<Rightarrow> Config" where
  "lookupModel resolve generation config c =
     lookupModel_loop resolve generation config c
       \<lparr>SDModelCheckpoint = None, SDVae = None, SDHypernetwork = None\<rparr>"

text \<open>
  The name a slot of the request resolves to, by the rules of the reconciler: nothing for
  no name or the empty name, the literal \<open>None\<close> passed through, else the best match of the
  inventory, or the name itself when nothing matches.
\<close>

definition resolved_name ::
    "(Cacheable \<Rightarrow> string \<Rightarrow> Resolved) \<Rightarrow> Cacheable \<Rightarrow> string option \<Rightarrow> string option" where
  "resolved_name resolve c requested =
     (case requested of
        None \<Rightarrow> None
      | Some name \<Rightarrow>
          if name = [] then None
          else if name = ''None'' then Some name
          else (case resolve c name of
                  CacheError e \<Rightarrow> None
                | Match m \<Rightarrow> Some m
                | NoMatch \<Rightarrow> Some name))"

subsection \<open>The backend and the other collaborators\<close>

datatype ApiCall =
    CallGetConfig
  | CallUpdateConfiguration Config
  | CallEditChangingModels
  | CallInitialMessage
  | CallCreateRecord
  | CallTextToImage
  | CallImageToImage
  | CallFinalMessage
  | CallErrorFollowup

text \<open>
  The world outside the queue: the configuration live on the backend, the calls made so
  far, which calls fail (by their position in the run), and the seeds of the response of
  the backend to an inference, \<open>None\<close> for a nil response.
\<close>

record World =
  live :: Config
  calls :: "ApiCall list"
  fails :: "nat \<Rightarrow> bool"
  inference :: "int list option"

definition call :: "World \<Rightarrow> ApiCall \<Rightarrow> World \<times> bool" where
  "call w c = (w\<lparr>calls := calls w @ [c]\<rparr>, \<not> fails w (length (calls w)))"

definition GetConfig :: "World \<Rightarrow> World \<times> (string + Config)" where
  "GetConfig w =
     (case call w CallGetConfig of
        (w', ok) \<Rightarrow> (w', if ok then Inr (live w) else Inl ''error getting config''))"

text \<open>
  Modelled from the spec: the backend is not part of the sources; the spec gives it a
  configuration set that patches checkpoint, VAE and hypernetwork. A slot that the patch
  names takes the name, a slot it leaves out keeps what it has.
\<close>

definition apply_patch :: "Config \<Rightarrow> Config \<Rightarrow> Config" where
  "apply_patch patch c =
     \<lparr>SDModelCheckpoint = (case SDModelCheckpoint patch of None \<Rightarrow> SDModelCheckpoint c | Some n \<Rightarrow> Some n),
      SDVae = (case SDVae patch of None \<Rightarrow> SDVae c | Some n \<Rightarrow> Some n),
      SDHypernetwork = (case SDHypernetwork patch of None \<Rightarrow> SDHypernetwork c | Some n \<Rightarrow> Some n)\<rparr>"

definition UpdateConfiguration :: "World \<Rightarrow> Config \<Rightarrow> World \<times> string option" where
  "UpdateConfiguration w patch =
     (case call w (CallUpdateConfiguration patch) of
        (w', ok) \<Rightarrow>
          if ok then (w'\<lparr>live := apply_patch patch (live w)\<rparr>, None)
          else (w', Some ''error updating configuration''))"

subsection \<open>Switching and reverting\<close>

definition configs_match :: "string option \<Rightarrow> string option \<Rightarrow> string option \<Rightarrow> Config \<Rightarrow> bool" where
  "configs_match checkpoint vae hypernetwork config =
     (ptrStringCompare checkpoint (SDModelCheckpoint config)
      \<and> ptrStringCompare vae (SDVae config)
      \<and> ptrStringCompare hypernetwork (SDHypernetwork config))"

text \<open>\<^verbatim>\<open>updateModels\<close> returns the configuration and the request with its three names set.\<close>

definition updateModels ::
    "(Cacheable \<Rightarrow> string \<Rightarrow> Resolved) \<Rightarrow> World \<Rightarrow> ImageGenerationRequest \<Rightarrow> Config
       \<Rightarrow> World \<times> (string + Config \<times> ImageGenerationRequest)" where
  "updateModels resolve w request config =
     (if \<not> ptrStringCompare (Checkpoint request) (SDModelCheckpoint config)
         \<or> \<not> ptrStringCompare (VAE request) (SDVae config)
         \<or> \<not> ptrStringCompare (Hypernetwork request) (SDHypernetwork config)
      then (case call w CallEditChangingModels of
              (w1, ok) \<Rightarrow>
                if \<not> ok then (w1, Inl ''error editing interaction'')
                else (case UpdateConfiguration w1
                             (lookupModel resolve request config
                                [SDModels, VAEModels, HypernetworkModels]) of
                        (w2, Some e) \<Rightarrow> (w2, Inl (''error updating configuration: '' @ e))
                      | (w2, None) \<Rightarrow>
                          (case GetConfig w2 of
                             (w3, Inl e) \<Rightarrow> (w3, Inl (''error getting config: '' @ e))
                           | (w3, Inr config') \<Rightarrow>
                               (w3, Inr (config',
                                         request\<lparr>Checkpoint := SDModelCheckpoint config',
                                                 VAE := SDVae config',
                                                 Hypernetwork := SDHypernetwork config'\<rparr>)))))
      else (w, Inr (config, request)))"

text \<open>\<^verbatim>\<open>switchToModels\<close> returns the configuration after the switch and the one before it.\<close>

definition switchToModels ::
    "(Cacheable \<Rightarrow> string \<Rightarrow> Resolved) \<Rightarrow> World \<Rightarrow> ImageGenerationRequest
       \<Rightarrow> World \<times> (string + Config \<times> Config \<times> ImageGenerationRequest)" where
  "switchToModels resolve w request =
     (case GetConfig w of
        (w1, Inl e) \<Rightarrow> (w1, Inl (''error getting config: '' @ e))
      | (w1, Inr originalConfig) \<Rightarrow>
          (case updateModels resolve w1 request originalConfig of
             (w2, Inl e) \<Rightarrow> (w2, Inl (''error updating models: '' @ e))
           | (w2, Inr (config, request')) \<Rightarrow> (w2, Inr (config, originalConfig, request'))))"

definition revertModels :: "World \<Rightarrow> Config \<Rightarrow> Config \<Rightarrow> World \<times> string option" where
  "revertModels w config originalConfig =
     (if \<not> ptrStringCompare (SDModelCheckpoint config) (SDModelCheckpoint originalConfig)
         \<or> \<not> ptrStringCompare (SDVae config) (SDVae originalConfig)
         \<or> \<not> ptrStringCompare (SDHypernetwork config) (SDHypernetwork originalConfig)
      then UpdateConfiguration w
             \<lparr>SDModelCheckpoint = SDModelCheckpoint originalConfig,
              SDVae = SDVae originalConfig,
              SDHypernetwork = SDHypernetwork originalConfig\<rparr>
      else (w, None))"

subsection \<open>The generation driver\<close>

text \<open>\<^verbatim>\<open>SDQueueItem\<close>: the kind of the job and its generation request.\<close>

record SDQueueItem =
  SDType :: int
  SDRequest :: ImageGenerationRequest

text \<open>\<^verbatim>\<open>recordSeeds\<close> creates one record for each seed; a failure is logged only.\<close>

fun recordSeeds :: "World \<Rightarrow> int list \<Rightarrow> World" where
  "recordSeeds w [] = w"
| "recordSeeds w (seed # seeds) = recordSeeds (fst (call w CallCreateRecord)) seeds"

text \<open>
  \<^verbatim>\<open>processImagineGrid\<close>, as the sequence of its calls to the backend, the chat client and
  the repository, with every early return. The progress poller it starts runs beside it
  and is left out of the sequence. The result is the error returned, if any.
\<close>

definition finish_grid :: "World \<Rightarrow> Config \<Rightarrow> Config \<Rightarrow> World \<times> string option" where
  "finish_grid w config originalConfig =
     (case call w CallFinalMessage of
        (w1, ok) \<Rightarrow>
          if \<not> ok then (w1, Some ''error showing final message'')
          else (case revertModels w1 config originalConfig of
                  (w2, Some e) \<Rightarrow>
                    (case call w2 CallErrorFollowup of
                       (w3, ok3) \<Rightarrow> (w3, if ok3 then None else Some ''error sending followup''))
                | (w2, None) \<Rightarrow> (w2, None)))"

definition processImagineGrid ::
    "(Cacheable \<Rightarrow> string \<Rightarrow> Resolved) \<Rightarrow> World \<Rightarrow> SDQueueItem \<Rightarrow> World \<times> string option" where
  "processImagineGrid resolve w item =
     (case switchToModels resolve w (SDRequest item) of
        (w1, Inl e) \<Rightarrow> (w1, Some (''error switching to models: '' @ e))
      | (w1, Inr (config, originalConfig, request)) \<Rightarrow>
          (case call w1 CallInitialMessage of
             (w2, ok2) \<Rightarrow>
               if \<not> ok2 then (w2, Some ''error showing initial message'')
               else (case call w2 CallCreateRecord of
                       (w3, ok3) \<Rightarrow>
                         if \<not> ok3 then (w3, Some ''error recording to repository'')
                         else if SDType item \<in> {ItemTypeImagine, ItemTypeReroll, ItemTypeVariation, ItemTypeRaw}
                         then (case call w3 CallTextToImage of
                                 (w4, ok4) \<Rightarrow>
                                   if \<not> ok4 then (w4, Some ''error inferencing generation'')
                                   else (case inference w4 of
                                           None \<Rightarrow> (w4, Some ''response is nil'')
                                         | Some seeds \<Rightarrow>
                                             finish_grid (recordSeeds w4 seeds) config originalConfig))
                         else if SDType item = ItemTypeImg2Img
                         then (case call w3 CallImageToImage of
                                 (w4, ok4) \<Rightarrow>
                                   if \<not> ok4 then (w4, Some ''error in image to image'')
                                   else finish_grid w4 config originalConfig)
                         else (w3, Some ''unknown queue type''))))"

text \<open>Example data: the backend has loaded checkpoint \<open>A\<close> and VAE \<open>C\<close>; the job asks for
  checkpoint \<open>A\<close> and VAE \<open>B\<close>; every name is found in the inventory as it is.\<close>

definition example_resolve :: "Cacheable \<Rightarrow> string \<Rightarrow> Resolved" where
  "example_resolve c name = Match name"

definition example_live :: Config where
  "example_live = \<lparr>SDModelCheckpoint = Some ''A'', SDVae = Some ''C'', SDHypernetwork = None\<rparr>"

definition example_generation :: ImageGenerationRequest where
  "example_generation =
     TextToImageRequest.extend example_request
       \<lparr>Processed = False, Checkpoint = Some ''A'', VAE = Some ''B'', Hypernetwork = None\<rparr>"

definition fails_at :: "nat \<Rightarrow> nat \<Rightarrow> bool" where
  "fails_at k n = (n = k)"

definition never_fails :: "nat \<Rightarrow> bool" where
  "never_fails n = False"

definition example_world :: "(nat \<Rightarrow> bool) \<Rightarrow> World" where
  "example_world f = \<lparr>live = example_live, calls = [], fails = f, inference = Some [42]\<rparr>"

definition example_same :: Config where
  "example_same = \<lparr>SDModelCheckpoint = Some ''A'', SDVae = Some ''B'', SDHypernetwork = None\<rparr>"

definition example_sd_item :: SDQueueItem where
  "example_sd_item = \<lparr>SDType = ItemTypeImagine, SDRequest = example_generation\<rparr>"

text \<open>Example data: prompts with directives.\<close>

definition example_prompt :: string where
  "example_prompt = ''a cat --ar 16:9 --step 30 --seed 42 extra''"

definition example_directive_item :: QueueItem where
  "example_directive_item = example_item\<lparr>Request := example_request\<lparr>Prompt := example_prompt\<rparr>\<rparr>"




section \<open>Properties of the job queue\<close>

lemma Add_full:
  "length (nai_queue q) = nai_queue_capacity \<Longrightarrow> Add q item = Returns (q, - 1, Some ''queue is full'')"
  by (simp add: Add_def)

lemma Add_not_full:
  "length (nai_queue q) < nai_queue_capacity \<Longrightarrow>
   Add q item = Returns (q\<lparr>nai_queue := nai_queue q @ [item]\<rparr>, int (length (nai_queue q)) + 1, None)"
  by (simp add: Add_def Let_def)

lemma AddImagine_not_full:
  "length (queue q) < queue_capacity \<Longrightarrow>
   AddImagine q item = Returns (q\<lparr>queue := queue q @ [item]\<rparr>, int (length (queue q)) + 1, None)"
  by (simp add: AddImagine_def Let_def)

text \<open>
  Claim C1, at the input where the code departs from it. The claim: an enqueue on a full
  queue fails with an error and does not block. With 100 pending jobs in the first
  pipeline \<^verbatim>\<open>AddImagine\<close> returns no error: the send blocks the caller. (\<^verbatim>\<open>Add\<close> of the
  second backend does return the error at 24 pending jobs, see \<open>Add_full\<close>.)
\<close>

theorem AddImagine_full_blocks:
  "AddImagine (New\<lparr>queue := replicate 100 example_item\<rparr>) example_item = Blocks"
  by (simp add: AddImagine_def queue_capacity_def)

lemma pull_busy:
  "currentImagine q \<noteq> None \<Longrightarrow>
   pullNextInQueue q = Inr (if queue q = [] then q else q\<lparr>logged := logged q @ [WarnCurrentNotNil]\<rparr>)"
  by (subst pullNextInQueue.simps) (simp split: list.splits)

lemma pull_idle_step:
  assumes "currentImagine q = None" and "queue q = item # rest"
  shows "pullNextInQueue q =
     (case DiscordInteraction item of
        None \<Rightarrow> Inl PanicNilInteraction
      | Some interaction \<Rightarrow>
          if is_cancelled (cancelledItems q) (ID interaction)
          then Inr (q\<lparr>queue := rest, currentImagine := None,
                      cancelledItems := (cancelledItems q)(ID interaction := None)\<rparr>)
          else if Type item \<in> {ItemTypeImagine, ItemTypeReroll, ItemTypeVariation, ItemTypeRaw}
          then Inr (dispatch q item rest (ProcessCurrentImagine item))
          else if Type item = ItemTypeImg2Img
          then Inr (dispatch q item rest (ProcessImg2ImgImagine item))
          else if Type item = ItemTypeUpscale
          then Inr (dispatch q item rest (ProcessUpscaleImagine item))
          else pullNextInQueue
                 (q\<lparr>queue := rest, errorReplies := errorReplies q @ [interaction],
                    logged := logged q @ [LogUnknownType (Type item)],
                    currentImagine := None\<rparr>))"
  using assms
  by (subst pullNextInQueue.simps)
     (simp add: pull_busy dispatch_def done_imagine_def Let_def split: option.splits)

lemma pull_idle:
  "currentImagine q = None \<Longrightarrow> workers q = [] \<Longrightarrow> pullNextInQueue q = Inr q' \<Longrightarrow> one_in_flight q'"
proof (induction "queue q" arbitrary: q q')
  case Nil
  then have "pullNextInQueue q = Inr q"
    by (subst pullNextInQueue.simps) simp
  with Nil show ?case by (simp add: one_in_flight_def)
next
  case (Cons item rest)
  from Cons.hyps(2) have qq: "queue q = item # rest" by simp
  note step = pull_idle_step [OF Cons.prems(1) qq]
  show ?case
  proof (cases "DiscordInteraction item")
    case None
    with step Cons.prems show ?thesis by simp
  next
    case (Some interaction)
    let ?q2 = "q\<lparr>queue := rest, errorReplies := errorReplies q @ [interaction],
                    logged := logged q @ [LogUnknownType (Type item)],
                    currentImagine := None\<rparr>"
    have IH: "pullNextInQueue ?q2 = Inr q' \<Longrightarrow> one_in_flight q'"
      using Cons.hyps(1) [of ?q2 q'] Cons.prems(2) by simp
    from step Some Cons.prems IH show ?thesis
      by (auto simp: one_in_flight_def dispatch_def Let_def split: if_splits)
  qed
qed

lemma reachable_one_in_flight: "reachable q \<Longrightarrow> one_in_flight q"
proof (induction rule: reachable.induct)
  case reach_New
  show ?case by (simp add: one_in_flight_def New_def)
next
  case (reach_AddImagine q item q' pos err)
  then show ?case
    by (auto simp: one_in_flight_def AddImagine_def Let_def split: if_splits option.splits)
next
  case (reach_RemoveFromQueue q k)
  then show ?case by (simp add: one_in_flight_def RemoveFromQueue_def split: option.splits)
next
  case (reach_tick q wait q' wait')
  show ?case
  proof (cases "currentImagine q")
    case None
    with reach_tick.IH have w: "workers q = []" by (simp add: one_in_flight_def)
    from reach_tick.hyps(2) None have "pullNextInQueue q = Inr q'"
      by (auto simp: poll_tick_def split: sum.splits)
    from pull_idle [OF None w this] show ?thesis .
  next
    case (Some i)
    with reach_tick.hyps(2) have "q' = q \<or> q' = q\<lparr>logged := logged q @ [LogWaiting]\<rparr>"
      by (auto simp: poll_tick_def split: if_splits)
    with reach_tick.IH show ?thesis by (auto simp: one_in_flight_def split: option.splits)
  qed
next
  case (reach_finish q w c)
  then show ?case
    by (cases "workers q")
       (auto simp: one_in_flight_def worker_finish_def done_imagine_def split: option.splits)
qed

lemma reachable_example_busy: "reachable example_busy"
proof -
  let ?q1 = "New\<lparr>queue := [example_item]\<rparr>"
  have "AddImagine New example_item = Returns (?q1, 1, None)"
    by (simp add: AddImagine_def New_def queue_capacity_def)
  from reach_AddImagine [OF reach_New this] have r1: "reachable ?q1" .
  have "pullNextInQueue ?q1 = Inr example_busy"
    by (subst pull_idle_step [where item = example_item and rest = "[]"])
       (simp_all add: New_def example_item_def is_cancelled_def dispatch_def example_busy_def
          ItemTypeImagine_def)
  then have "poll_tick (?q1, False) = Inr (example_busy, False)"
    by (simp add: poll_tick_def New_def)
  from reach_tick [OF r1 this] show ?thesis .
qed

lemma reachable_example_waiting: "reachable example_waiting"
proof -
  let ?q1 = "New\<lparr>queue := [example_item]\<rparr>"
  let ?q2 = "New\<lparr>queue := [example_item, example_second]\<rparr>"
  have "AddImagine New example_item = Returns (?q1, 1, None)"
    by (simp add: AddImagine_def New_def queue_capacity_def)
  from reach_AddImagine [OF reach_New this] have r1: "reachable ?q1" .
  have "AddImagine ?q1 example_second = Returns (?q2, 2, None)"
    by (simp add: AddImagine_def New_def queue_capacity_def)
  from reach_AddImagine [OF r1 this] have r2: "reachable ?q2" .
  have "pullNextInQueue ?q2 = Inr example_waiting"
    by (subst pull_idle_step [where item = example_item and rest = "[example_second]"])
       (simp_all add: New_def example_item_def is_cancelled_def dispatch_def example_waiting_def
          ItemTypeImagine_def)
  then have "poll_tick (?q2, False) = Inr (example_waiting, False)"
    by (simp add: poll_tick_def New_def)
  from reach_tick [OF r2 this] show ?thesis .
qed

lemma reachable_example_cancelled: "reachable example_cancelled"
proof -
  let ?q1 = "New\<lparr>queue := [example_item]\<rparr>"
  have "AddImagine New example_item = Returns (?q1, 1, None)"
    by (simp add: AddImagine_def New_def queue_capacity_def)
  from reach_AddImagine [OF reach_New this] have "reachable ?q1" .
  then have "reachable (RemoveFromQueue ?q1 ''a'')"
    by (rule reach_RemoveFromQueue)
  moreover have "RemoveFromQueue ?q1 ''a'' = example_cancelled"
    by (simp add: RemoveFromQueue_def example_cancelled_def New_def)
  ultimately show ?thesis by simp
qed

lemma reachable_example_unknown: "reachable example_unknown"
proof -
  have "AddImagine New example_unknown_item = Returns (example_unknown, 1, None)"
    by (simp add: AddImagine_def New_def queue_capacity_def example_unknown_def)
  from reach_AddImagine [OF reach_New this] show ?thesis .
qed

lemma worker_finish_clears:
  assumes "reachable q" and "w \<in> set (workers q)"
  shows "currentImagine (worker_finish q w c) = None \<and> workers (worker_finish q w c) = []"
proof -
  from reachable_one_in_flight [OF assms(1)] assms(2) have "workers q = [w]"
    by (cases "workers q") (auto simp: one_in_flight_def split: option.splits)
  then show ?thesis
    by (simp add: worker_finish_def done_imagine_def)
qed

text \<open>
  Claim C2. In every reachable state one job at most is in flight: nothing is current
  and no goroutine runs, or one item is current and exactly one goroutine runs, on that
  item. Every way a current job ends clears the slot. The goroutine of the job, however
  the job ended, leaves nothing current and no goroutine. The pull that finds the head
  job cancelled leaves nothing current and starts nothing. The pull that finds a job of
  unknown kind clears the slot and goes on with the rest of the queue. So any pull that
  returns from an idle state returns a state with one job in flight at most. A pull while
  a job is current dequeues nothing and changes nothing but the log: it returns the same
  state, with one warning added to the log when an item is waiting in the queue.
\<close>

theorem single_current_job:
  "(reachable q \<longrightarrow> one_in_flight q)
   \<and> (reachable q \<and> w \<in> set (workers q) \<longrightarrow>
        currentImagine (worker_finish q w c) = None \<and> workers (worker_finish q w c) = []
        \<and> reachable (worker_finish q w c))
   \<and> (reachable q1 \<and> currentImagine q1 = None \<and> queue q1 = item1 # rest1
        \<and> DiscordInteraction item1 = Some i1 \<and> is_cancelled (cancelledItems q1) (ID i1) \<longrightarrow>
        (\<exists>q'. pullNextInQueue q1 = Inr q' \<and> currentImagine q' = None \<and> workers q' = []
              \<and> queue q' = rest1))
   \<and> (reachable q2 \<and> currentImagine q2 = None \<and> queue q2 = item2 # rest2
        \<and> DiscordInteraction item2 = Some i2 \<and> \<not> is_cancelled (cancelledItems q2) (ID i2)
        \<and> Type item2 \<notin> {ItemTypeImagine, ItemTypeReroll, ItemTypeVariation, ItemTypeRaw,
                          ItemTypeImg2Img, ItemTypeUpscale} \<longrightarrow>
        pullNextInQueue q2
          = pullNextInQueue
              (q2\<lparr>queue := rest2, errorReplies := errorReplies q2 @ [i2],
                  logged := logged q2 @ [LogUnknownType (Type item2)],
                  currentImagine := None\<rparr>))
   \<and> (reachable q3 \<and> currentImagine q3 = None \<and> pullNextInQueue q3 = Inr q3' \<longrightarrow>
        one_in_flight q3')
   \<and> (currentImagine q4 \<noteq> None \<longrightarrow>
        pullNextInQueue q4
          = Inr (if queue q4 = [] then q4 else q4\<lparr>logged := logged q4 @ [WarnCurrentNotNil]\<rparr>))"
proof -
  have a: "currentImagine (worker_finish q w c) = None \<and> workers (worker_finish q w c) = []
      \<and> reachable (worker_finish q w c)"
    if "reachable q" and "w \<in> set (workers q)"
    using worker_finish_clears [OF that] reach_finish [OF that] by simp
  have b: "\<exists>q'. pullNextInQueue q1 = Inr q' \<and> currentImagine q' = None \<and> workers q' = []
              \<and> queue q' = rest1"
    if r: "reachable q1" and n: "currentImagine q1 = None" and h: "queue q1 = item1 # rest1"
      and i: "DiscordInteraction item1 = Some i1" and m: "is_cancelled (cancelledItems q1) (ID i1)"
  proof -
    from reachable_one_in_flight [OF r] n have "workers q1 = []"
      by (simp add: one_in_flight_def)
    with pull_idle_step [OF n h] i m show ?thesis by simp
  qed
  have d: "pullNextInQueue q2
          = pullNextInQueue
              (q2\<lparr>queue := rest2, errorReplies := errorReplies q2 @ [i2],
                  logged := logged q2 @ [LogUnknownType (Type item2)],
                  currentImagine := None\<rparr>)"
    if "currentImagine q2 = None" and "queue q2 = item2 # rest2"
      and "DiscordInteraction item2 = Some i2" and "\<not> is_cancelled (cancelledItems q2) (ID i2)"
      and "Type item2 \<notin> {ItemTypeImagine, ItemTypeReroll, ItemTypeVariation, ItemTypeRaw,
                          ItemTypeImg2Img, ItemTypeUpscale}"
    using pull_idle_step [OF that(1) that(2)] that(3-5) by simp
  have e: "one_in_flight q3'"
    if r: "reachable q3" and n: "currentImagine q3 = None" and p: "pullNextInQueue q3 = Inr q3'"
  proof -
    from reachable_one_in_flight [OF r] n have "workers q3 = []"
      by (simp add: one_in_flight_def)
    from pull_idle [OF n this p] show ?thesis .
  qed
  from a b d e show ?thesis
    using reachable_one_in_flight [of q] pull_busy [of q4] by blast
qed

theorem single_current_job_witness:
  "reachable example_waiting \<and> one_in_flight example_waiting
   \<and> ProcessCurrentImagine example_item \<in> set (workers example_waiting)
   \<and> currentImagine (worker_finish example_waiting (ProcessCurrentImagine example_item) Failed) = None
   \<and> workers (worker_finish example_waiting (ProcessCurrentImagine example_item) Failed) = []
   \<and> reachable example_cancelled \<and> currentImagine example_cancelled = None
   \<and> queue example_cancelled = [example_item]
   \<and> DiscordInteraction example_item = Some \<lparr>ID = ''a''\<rparr>
   \<and> is_cancelled (cancelledItems example_cancelled) ''a''
   \<and> (\<exists>q'. pullNextInQueue example_cancelled = Inr q' \<and> currentImagine q' = None
          \<and> workers q' = [] \<and> queue q' = [])
   \<and> reachable example_unknown \<and> currentImagine example_unknown = None
   \<and> queue example_unknown = [example_unknown_item]
   \<and> \<not> is_cancelled (cancelledItems example_unknown) ''a''
   \<and> Type example_unknown_item
        \<notin> {ItemTypeImagine, ItemTypeReroll, ItemTypeVariation, ItemTypeRaw,
           ItemTypeImg2Img, ItemTypeUpscale}
   \<and> (\<exists>q'. pullNextInQueue example_unknown = Inr q' \<and> currentImagine q' = None
          \<and> workers q' = [] \<and> queue q' = [] \<and> errorReplies q' = [\<lparr>ID = ''a''\<rparr>])
   \<and> reachable (New\<lparr>queue := [example_item, example_second]\<rparr>)
   \<and> pullNextInQueue (New\<lparr>queue := [example_item, example_second]\<rparr>) = Inr example_waiting
   \<and> currentImagine example_waiting \<noteq> None \<and> queue example_waiting \<noteq> []
   \<and> pullNextInQueue example_waiting
       = Inr (example_waiting\<lparr>logged := [WarnCurrentNotNil, WarnCurrentNotNil]\<rparr>)"
proof -
  let ?q3 = "New\<lparr>queue := [example_item, example_second]\<rparr>"
  let ?u = "example_unknown\<lparr>queue := [], errorReplies := errorReplies example_unknown @ [\<lparr>ID = ''a''\<rparr>],
              logged := logged example_unknown @ [LogUnknownType (Type example_unknown_item)],
              currentImagine := None\<rparr>"
  note t = single_current_job [of example_waiting "ProcessCurrentImagine example_item" Failed
      example_cancelled example_item "[]" "\<lparr>ID = ''a''\<rparr>"
      example_unknown example_unknown_item "[]" "\<lparr>ID = ''a''\<rparr>"
      ?q3 example_waiting example_waiting]
  have w: "ProcessCurrentImagine example_item \<in> set (workers example_waiting)"
    "currentImagine example_waiting \<noteq> None" "queue example_waiting \<noteq> []"
    "logged example_waiting = [WarnCurrentNotNil]"
    by (simp_all add: example_waiting_def New_def)
  have c: "currentImagine example_cancelled = None" "queue example_cancelled = [example_item]"
    "DiscordInteraction example_item = Some \<lparr>ID = ''a''\<rparr>"
    "is_cancelled (cancelledItems example_cancelled) (ID \<lparr>ID = ''a''\<rparr>)"
    by (simp_all add: example_cancelled_def New_def example_item_def is_cancelled_def)
  have u: "currentImagine example_unknown = None" "queue example_unknown = [example_unknown_item]"
    "DiscordInteraction example_unknown_item = Some \<lparr>ID = ''a''\<rparr>"
    "\<not> is_cancelled (cancelledItems example_unknown) (ID \<lparr>ID = ''a''\<rparr>)"
    "Type example_unknown_item
        \<notin> {ItemTypeImagine, ItemTypeReroll, ItemTypeVariation, ItemTypeRaw,
           ItemTypeImg2Img, ItemTypeUpscale}"
    by (simp_all add: example_unknown_def New_def example_unknown_item_def example_item_def
        is_cancelled_def ItemTypeImagine_def ItemTypeReroll_def ItemTypeVariation_def
        ItemTypeRaw_def ItemTypeImg2Img_def ItemTypeUpscale_def)
  have r3: "reachable ?q3"
  proof -
    have "AddImagine New example_item = Returns (New\<lparr>queue := [example_item]\<rparr>, 1, None)"
      by (simp add: AddImagine_def New_def queue_capacity_def)
    from reach_AddImagine [OF reach_New this] have r1: "reachable (New\<lparr>queue := [example_item]\<rparr>)" .
    have "AddImagine (New\<lparr>queue := [example_item]\<rparr>) example_second = Returns (?q3, 2, None)"
      by (simp add: AddImagine_def New_def queue_capacity_def)
    from reach_AddImagine [OF r1 this] show ?thesis .
  qed
  have p3: "currentImagine ?q3 = None" "pullNextInQueue ?q3 = Inr example_waiting"
  proof -
    show "currentImagine ?q3 = None" by (simp add: New_def)
    show "pullNextInQueue ?q3 = Inr example_waiting"
      by (subst pull_idle_step [where item = example_item and rest = "[example_second]"])
         (simp_all add: New_def example_item_def is_cancelled_def dispatch_def example_waiting_def
            ItemTypeImagine_def)
  qed
  have pu: "pullNextInQueue ?u = Inr ?u"
    by (subst pullNextInQueue.simps) simp
  have fu: "currentImagine ?u = None" "workers ?u = []" "queue ?u = []"
    "errorReplies ?u = [\<lparr>ID = ''a''\<rparr>]"
    by (simp_all add: example_unknown_def New_def)
  from t reachable_example_waiting reachable_example_cancelled reachable_example_unknown
    w c u r3 p3 have
    "one_in_flight example_waiting"
    "currentImagine (worker_finish example_waiting (ProcessCurrentImagine example_item) Failed) = None"
    "workers (worker_finish example_waiting (ProcessCurrentImagine example_item) Failed) = []"
    "\<exists>q'. pullNextInQueue example_cancelled = Inr q' \<and> currentImagine q' = None
          \<and> workers q' = [] \<and> queue q' = []"
    "pullNextInQueue example_unknown = pullNextInQueue ?u"
    "pullNextInQueue example_waiting
       = Inr (example_waiting\<lparr>logged := logged example_waiting @ [WarnCurrentNotNil]\<rparr>)"
    by simp_all
  with pu fu reachable_example_waiting reachable_example_cancelled reachable_example_unknown
    w c u r3 p3 show ?thesis
    by simp
qed

text \<open>
  Claim C3 as stated fails in its last part: marking the handle of the job that is current
  does change the cancellation registry. \<^verbatim>\<open>RemoveFromQueue\<close> stores the identifier without
  looking at the current item; here the registry was empty and holds \<open>a\<close> afterwards.
\<close>

theorem cancel_current_changes_registry:
  "currentImagine example_busy = Some example_item
   \<and> DiscordInteraction example_item = Some \<lparr>ID = ''a''\<rparr>
   \<and> cancelledItems (RemoveFromQueue example_busy ''a'') \<noteq> cancelledItems example_busy"
proof -
  have "cancelledItems (RemoveFromQueue example_busy ''a'') ''a'' = Some True"
    by (simp add: RemoveFromQueue_def)
  moreover have "cancelledItems example_busy ''a'' = None"
    by (simp add: example_busy_def New_def)
  ultimately have "cancelledItems (RemoveFromQueue example_busy ''a'') \<noteq> cancelledItems example_busy"
    by (metis option.distinct(1))
  then show ?thesis
    by (simp add: example_busy_def New_def example_item_def)
qed

text \<open>
  Claim C3, amended. When nothing is current and the handle of the head job is marked in
  the registry, the pull removes the job from the queue and the mark from the registry,
  leaves nothing current, starts no goroutine (so no backend call is made) and sends no
  reply. Marking a handle, of the current job or any other, leaves the current item, the
  queue and the running goroutine as they are, and records the handle in the registry.
\<close>

theorem cancelled_job_skipped:
  "(currentImagine q = None \<and> queue q = item # rest \<and> DiscordInteraction item = Some i
      \<and> is_cancelled (cancelledItems q) (ID i) \<longrightarrow>
      (\<exists>q'. pullNextInQueue q = Inr q' \<and> currentImagine q' = None \<and> queue q' = rest
            \<and> cancelledItems q' = (cancelledItems q)(ID i := None)
            \<and> workers q' = workers q \<and> errorReplies q' = errorReplies q
            \<and> logged q' = logged q))
   \<and> currentImagine (RemoveFromQueue q k) = currentImagine q
   \<and> queue (RemoveFromQueue q k) = queue q
   \<and> workers (RemoveFromQueue q k) = workers q
   \<and> cancelledItems (RemoveFromQueue q k) = (cancelledItems q)(k \<mapsto> True)"
proof -
  have "\<exists>q'. pullNextInQueue q = Inr q' \<and> currentImagine q' = None \<and> queue q' = rest
            \<and> cancelledItems q' = (cancelledItems q)(ID i := None)
            \<and> workers q' = workers q \<and> errorReplies q' = errorReplies q
            \<and> logged q' = logged q"
    if a: "currentImagine q = None" and b: "queue q = item # rest"
      and c: "DiscordInteraction item = Some i" and d: "is_cancelled (cancelledItems q) (ID i)"
    using pull_idle_step [OF a b] c d by simp
  then show ?thesis
    by (simp add: RemoveFromQueue_def)
qed

theorem cancelled_job_skipped_witness:
  "currentImagine example_cancelled = None \<and> queue example_cancelled = [example_item]
   \<and> DiscordInteraction example_item = Some \<lparr>ID = ''a''\<rparr>
   \<and> is_cancelled (cancelledItems example_cancelled) ''a''
   \<and> (\<exists>q'. pullNextInQueue example_cancelled = Inr q' \<and> currentImagine q' = None
          \<and> queue q' = [] \<and> \<not> is_cancelled (cancelledItems q') ''a'' \<and> workers q' = [])"
proof -
  have h: "currentImagine example_cancelled = None \<and> queue example_cancelled = [example_item]
      \<and> DiscordInteraction example_item = Some \<lparr>ID = ''a''\<rparr>
      \<and> is_cancelled (cancelledItems example_cancelled) (ID \<lparr>ID = ''a''\<rparr>)"
    by (simp add: example_cancelled_def New_def example_item_def is_cancelled_def)
  from cancelled_job_skipped [of example_cancelled example_item "[]" "\<lparr>ID = ''a''\<rparr>" "''a''"] h
  obtain q' where "pullNextInQueue example_cancelled = Inr q'" "currentImagine q' = None"
      "queue q' = []" "cancelledItems q' = (cancelledItems example_cancelled)(''a'' := None)"
      "workers q' = workers example_cancelled"
    by auto
  moreover have "workers example_cancelled = []"
    by (simp add: example_cancelled_def New_def)
  ultimately show ?thesis
    using h by (auto simp: is_cancelled_def)
qed

section \<open>Properties of the status message\<close>


section \<open>Properties of the progress poller\<close>

lemma zero_tick_cases:
  "zero_tick ev \<Longrightarrow> \<exists>p mem1 mem2 editErr. ev = EvTick (Inr p) mem1 mem2 editErr \<and> f64_eq p (Fin 0)"
  by (induction ev rule: zero_tick.induct) auto

lemma zero_ticks_skipped:
  "list_all zero_tick zs \<Longrightarrow> updateProgressBar r (zs @ evs) t = updateProgressBar r evs t"
proof (induction zs)
  case Nil
  show ?case by simp
next
  case (Cons z zs)
  then obtain p mem1 mem2 editErr where "z = EvTick (Inr p) mem1 mem2 editErr" "f64_eq p (Fin 0)"
    using zero_tick_cases by fastforce
  with Cons show ?case by simp
qed

text \<open>
  Claim C9. Ticks whose progress query answers exactly zero produce no status edit and
  leave the poller in its loop: any run of them is skipped without a trace, and after it
  the poller waits for the next event. A tick whose progress query fails ends the poller:
  the error is logged and shown to the user, and the events after it are not looked at.
  A tick whose status edit fails ends the poller as well, with the error in the log.
\<close>

theorem poller_ticks:
  "(list_all zero_tick zs \<longrightarrow>
      updateProgressBar r (zs @ evs) t = updateProgressBar r evs t
      \<and> updateProgressBar r zs t = (Waiting, t))
   \<and> updateProgressBar r (EvTick (Inl progressErr) mem1 mem2 editErr # evs) t
       = (Returned, t\<lparr>pollerLog := pollerLog t @ [LogProgressError progressErr],
                       errorEdits := errorEdits t @ [''Error getting current progress: '' @ progressErr]\<rparr>)
   \<and> (\<not> f64_eq p (Fin 0) \<longrightarrow>
        (\<exists>t'. updateProgressBar r (EvTick (Inr p) mem1 mem2 (Some e) # evs) t = (Returned, t')
             \<and> (\<exists>l. pollerLog t' = pollerLog t @ l @ [LogEditError e])
             \<and> errorEdits t' = errorEdits t))"
proof -
  have a: "updateProgressBar r zs t = (Waiting, t)" if "list_all zero_tick zs"
    using zero_ticks_skipped [OF that, of r "[]" t] by simp
  have b: "\<exists>t'. updateProgressBar r (EvTick (Inr p) mem1 mem2 (Some e) # evs) t = (Returned, t')
             \<and> (\<exists>l. pollerLog t' = pollerLog t @ l @ [LogEditError e])
             \<and> errorEdits t' = errorEdits t" if "\<not> f64_eq p (Fin 0)"
    using that by (auto simp: Let_def split: sum.splits prod.splits)
  from a b show ?thesis
    by (simp add: zero_ticks_skipped)
qed

theorem poller_ticks_witness:
  "list_all zero_tick [example_zero, example_zero, example_zero]
   \<and> updateProgressBar example_render [example_zero, example_zero, example_zero] example_trace = (Waiting, example_trace)
   \<and> \<not> f64_eq (Fin (1/2)) (Fin 0)
   \<and> (\<exists>t'. updateProgressBar example_render
         ([example_zero, example_zero, example_zero]
            @ [EvTick (Inr (Fin (1/2))) (Inl ''m'') (Inl ''m'') (Some ''edit failed''), example_zero])
         example_trace = (Returned, t')
         \<and> statusEdits t' = [example_render (Fin (1/2)) None None])"
proof -
  have z: "list_all zero_tick [example_zero, example_zero, example_zero]"
    by (simp add: example_zero_def)
  have n: "\<not> f64_eq (Fin (1/2)) (Fin 0)" by simp
  note t = poller_ticks [of "[example_zero, example_zero, example_zero]" example_render
      "[EvTick (Inr (Fin (1/2))) (Inl ''m'') (Inl ''m'') (Some ''edit failed''), example_zero]"
      example_trace _ _ _ _ "Fin (1/2)"]
  from t z n show ?thesis
    by (simp add: example_trace_def)
qed

section \<open>Properties of the model reconciler\<close>

lemma Config_update_None:
  "SDModelCheckpoint P = None \<Longrightarrow> P\<lparr>SDModelCheckpoint := None\<rparr> = P"
  "SDVae P = None \<Longrightarrow> P\<lparr>SDVae := None\<rparr> = P"
  "SDHypernetwork P = None \<Longrightarrow> P\<lparr>SDHypernetwork := None\<rparr> = P"
  by (cases P; simp)+

lemma loop_SDModels:
  "SDModelCheckpoint POST = None \<Longrightarrow>
   lookupModel_loop resolve g config (SDModels # cs) POST
     = lookupModel_loop resolve g config cs
         (POST\<lparr>SDModelCheckpoint := resolved_name resolve SDModels (Checkpoint g)\<rparr>)"
  by (cases "Checkpoint g"; cases "resolve SDModels (the (Checkpoint g))")
     (simp_all add: toLoad_of_def assign_POST_def resolved_name_def Config_update_None)

lemma loop_VAEModels:
  "SDVae POST = None \<Longrightarrow>
   lookupModel_loop resolve g config (VAEModels # cs) POST
     = lookupModel_loop resolve g config cs
         (POST\<lparr>SDVae := resolved_name resolve VAEModels (VAE g)\<rparr>)"
  by (cases "VAE g"; cases "resolve VAEModels (the (VAE g))")
     (simp_all add: toLoad_of_def assign_POST_def resolved_name_def Config_update_None)

lemma loop_HypernetworkModels:
  "SDHypernetwork POST = None \<Longrightarrow>
   lookupModel_loop resolve g config (HypernetworkModels # cs) POST
     = lookupModel_loop resolve g config cs
         (POST\<lparr>SDHypernetwork := resolved_name resolve HypernetworkModels (Hypernetwork g)\<rparr>)"
  by (cases "Hypernetwork g"; cases "resolve HypernetworkModels (the (Hypernetwork g))")
     (simp_all add: toLoad_of_def assign_POST_def resolved_name_def Config_update_None)

lemma lookupModel_slots:
  "lookupModel resolve generation config [SDModels, VAEModels, HypernetworkModels]
     = \<lparr>SDModelCheckpoint = resolved_name resolve SDModels (Checkpoint generation),
        SDVae = resolved_name resolve VAEModels (VAE generation),
        SDHypernetwork = resolved_name resolve HypernetworkModels (Hypernetwork generation)\<rparr>"
proof -
  let ?P0 = "\<lparr>SDModelCheckpoint = None, SDVae = None, SDHypernetwork = None\<rparr>"
  let ?P1 = "?P0\<lparr>SDModelCheckpoint := resolved_name resolve SDModels (Checkpoint generation)\<rparr>"
  let ?P2 = "?P1\<lparr>SDVae := resolved_name resolve VAEModels (VAE generation)\<rparr>"
  let ?P3 = "?P2\<lparr>SDHypernetwork := resolved_name resolve HypernetworkModels (Hypernetwork generation)\<rparr>"
  have "lookupModel resolve generation config [SDModels, VAEModels, HypernetworkModels]
          = lookupModel_loop resolve generation config [VAEModels, HypernetworkModels] ?P1"
    unfolding lookupModel_def by (rule loop_SDModels) simp
  also have "\<dots> = lookupModel_loop resolve generation config [HypernetworkModels] ?P2"
    by (rule loop_VAEModels) simp
  also have "\<dots> = lookupModel_loop resolve generation config [] ?P3"
    by (rule loop_HypernetworkModels) simp
  finally show ?thesis
    by simp
qed


lemma calls_UpdateConfiguration:
  "calls (fst (UpdateConfiguration w p)) = calls w @ [CallUpdateConfiguration p]"
  by (simp add: UpdateConfiguration_def call_def)

lemma calls_GetConfig:
  "calls (fst (GetConfig w)) = calls w @ [CallGetConfig]"
  by (simp add: GetConfig_def call_def)

lemma updateModels_match:
  "configs_match (Checkpoint request) (VAE request) (Hypernetwork request) config \<Longrightarrow>
   updateModels resolve w request config = (w, Inr (config, request))"
  by (simp add: updateModels_def configs_match_def)

lemma updateModels_differ:
  assumes d: "\<not> configs_match (Checkpoint request) (VAE request) (Hypernetwork request) config"
    and ok: "\<not> fails w (length (calls w))"
  shows "take (length (calls w) + 2) (calls (fst (updateModels resolve w request config)))
          = calls w @ [CallEditChangingModels,
                       CallUpdateConfiguration
                         (lookupModel resolve request config [SDModels, VAEModels, HypernetworkModels])]"
proof -
  let ?patch = "lookupModel resolve request config [SDModels, VAEModels, HypernetworkModels]"
  let ?w1 = "w\<lparr>calls := calls w @ [CallEditChangingModels]\<rparr>"
  have c1: "call w CallEditChangingModels = (?w1, True)"
    using ok by (simp add: call_def)
  obtain w2 e where u: "UpdateConfiguration ?w1 ?patch = (w2, e)"
    by (cases "UpdateConfiguration ?w1 ?patch")
  with calls_UpdateConfiguration [of ?w1 ?patch]
  have c2: "calls w2 = calls w @ [CallEditChangingModels, CallUpdateConfiguration ?patch]"
    by simp
  obtain w3 r where g: "GetConfig w2 = (w3, r)"
    by (cases "GetConfig w2")
  with calls_GetConfig [of w2] have c3: "calls w3 = calls w2 @ [CallGetConfig]"
    by simp
  have "calls (fst (updateModels resolve w request config)) = calls w2
        \<or> calls (fst (updateModels resolve w request config)) = calls w3"
    using d c1 u g
    by (simp add: updateModels_def configs_match_def split: option.splits sum.splits)
  with c2 c3 show ?thesis
    by auto
qed


lemma example_generation_names:
  "Checkpoint example_generation = Some ''A''" "VAE example_generation = Some ''B''"
  "Hypernetwork example_generation = None"
  by (simp_all add: example_generation_def TextToImageRequest.defs)

text \<open>
  Claim C4 as stated fails in its first part: the patch holds more than the slots that
  differ. Here the job asks for the checkpoint that is loaded and for another VAE; the
  update call carries the checkpoint as well as the VAE.
\<close>

theorem patch_holds_matching_slot:
  "ptrStringCompare (Checkpoint example_generation) (SDModelCheckpoint example_live)
   \<and> calls (fst (updateModels example_resolve (example_world never_fails) example_generation example_live))
       = [CallEditChangingModels,
          CallUpdateConfiguration \<lparr>SDModelCheckpoint = Some ''A'', SDVae = Some ''B'', SDHypernetwork = None\<rparr>,
          CallGetConfig]"
  by (simp add: updateModels_def example_generation_names example_live_def example_world_def
      never_fails_def call_def UpdateConfiguration_def GetConfig_def ptrStringCompare_def
      lookupModel_slots resolved_name_def example_resolve_def)

text \<open>
  Claim C4, amended. When the three requested names equal the live ones, slot by slot,
  \<^verbatim>\<open>updateModels\<close> makes no call at all and returns the configuration and the request as
  they are. When some slot differs, and the edit of the status message succeeds, a
  configuration update is sent, and its patch holds for each slot the name the request
  resolves to, whether or not the backend has that name loaded: a slot is left out of
  the patch only when the request names nothing or the empty name for it, or when its
  inventory cannot be fetched.
\<close>

theorem update_call_when_slots_differ:
  "(configs_match (Checkpoint request) (VAE request) (Hypernetwork request) config \<longrightarrow>
      updateModels resolve w request config = (w, Inr (config, request)))
   \<and> (\<not> configs_match (Checkpoint request') (VAE request') (Hypernetwork request') config'
        \<and> \<not> fails w' (length (calls w')) \<longrightarrow>
        take (length (calls w') + 2) (calls (fst (updateModels resolve w' request' config')))
          = calls w' @ [CallEditChangingModels,
                       CallUpdateConfiguration
                         \<lparr>SDModelCheckpoint = resolved_name resolve SDModels (Checkpoint request'),
                          SDVae = resolved_name resolve VAEModels (VAE request'),
                          SDHypernetwork = resolved_name resolve HypernetworkModels (Hypernetwork request')\<rparr>])"
  using updateModels_match [of request config resolve w]
    updateModels_differ [of request' config' w' resolve]
  by (simp add: lookupModel_slots)

theorem update_call_when_slots_differ_witness:
  "configs_match (Checkpoint example_generation) (VAE example_generation)
      (Hypernetwork example_generation) example_same
   \<and> updateModels example_resolve (example_world never_fails) example_generation example_same
       = (example_world never_fails, Inr (example_same, example_generation))
   \<and> \<not> configs_match (Checkpoint example_generation) (VAE example_generation)
      (Hypernetwork example_generation) example_live
   \<and> \<not> fails (example_world never_fails) (length (calls (example_world never_fails)))
   \<and> take 2 (calls (fst (updateModels example_resolve (example_world never_fails) example_generation example_live)))
       = [CallEditChangingModels,
          CallUpdateConfiguration \<lparr>SDModelCheckpoint = Some ''A'', SDVae = Some ''B'', SDHypernetwork = None\<rparr>]"
proof -
  have m: "configs_match (Checkpoint example_generation) (VAE example_generation)
      (Hypernetwork example_generation) example_same"
    by (simp add: configs_match_def example_generation_names example_same_def ptrStringCompare_def)
  have d: "\<not> configs_match (Checkpoint example_generation) (VAE example_generation)
      (Hypernetwork example_generation) example_live"
    by (simp add: configs_match_def example_generation_names example_live_def ptrStringCompare_def)
  have f: "\<not> fails (example_world never_fails) (length (calls (example_world never_fails)))"
    by (simp add: example_world_def never_fails_def)
  have c: "calls (example_world never_fails) = []"
    by (simp add: example_world_def)
  note t = update_call_when_slots_differ [of example_generation example_same example_resolve
      "example_world never_fails" example_generation example_live "example_world never_fails"]
  from t m d f c show ?thesis
    by (simp add: example_generation_names resolved_name_def example_resolve_def numeral_2_eq_2)
qed

lemma revertModels_patch:
  "revertModels w config originalConfig =
     (if configs_match (SDModelCheckpoint config) (SDVae config) (SDHypernetwork config) originalConfig
      then (w, None) else UpdateConfiguration w originalConfig)"
  by (cases originalConfig) (simp add: revertModels_def configs_match_def)

lemma successful_job_reverts:
  "snd (processImagineGrid example_resolve (example_world never_fails) example_sd_item) = None
   \<and> live (fst (processImagineGrid example_resolve (example_world never_fails) example_sd_item))
     = example_live"
  by (simp add: processImagineGrid_def switchToModels_def updateModels_def example_generation_names
      example_live_def example_world_def never_fails_def call_def UpdateConfiguration_def
      GetConfig_def ptrStringCompare_def lookupModel_slots resolved_name_def example_resolve_def
      example_sd_item_def ItemTypeImagine_def apply_patch_def finish_grid_def revertModels_def)


text \<open>
  Claim C5, at the input where the code departs from it. The claim: after every job the
  live configuration of the backend is the one recorded before the switch. The job asks
  for VAE \<open>B\<close> while \<open>C\<close> is loaded, and the inference call, the seventh call of the run,
  fails: \<^verbatim>\<open>processImagineGrid\<close> returns the error before it reaches \<^verbatim>\<open>revertModels\<close>, no
  second configuration update is sent, and the backend keeps VAE \<open>B\<close>. (On the path without
  failure the revert is sent, see \<open>successful_job_reverts\<close>.)
\<close>

theorem failed_inference_skips_revert:
  "snd (processImagineGrid example_resolve (example_world (fails_at 6)) example_sd_item)
     = Some ''error inferencing generation''
   \<and> calls (fst (processImagineGrid example_resolve (example_world (fails_at 6)) example_sd_item))
     = [CallGetConfig, CallEditChangingModels,
        CallUpdateConfiguration \<lparr>SDModelCheckpoint = Some ''A'', SDVae = Some ''B'', SDHypernetwork = None\<rparr>,
        CallGetConfig, CallInitialMessage, CallCreateRecord, CallTextToImage]
   \<and> live (fst (processImagineGrid example_resolve (example_world (fails_at 6)) example_sd_item))
     = \<lparr>SDModelCheckpoint = Some ''A'', SDVae = Some ''B'', SDHypernetwork = None\<rparr>
   \<and> live (example_world (fails_at 6))
     = \<lparr>SDModelCheckpoint = Some ''A'', SDVae = Some ''C'', SDHypernetwork = None\<rparr>"
  by (simp add: processImagineGrid_def switchToModels_def updateModels_def example_generation_names
      example_live_def example_world_def fails_at_def call_def UpdateConfiguration_def
      GetConfig_def ptrStringCompare_def lookupModel_slots resolved_name_def example_resolve_def
      example_sd_item_def ItemTypeImagine_def apply_patch_def)


section \<open>Properties of the directive parser\<close>

lemma example_scan:
  "scan_keyValue None 0 example_prompt
     = ([(''ar'', ''16''), (''step'', ''30''), (''seed'', ''42'')], ''a cat :9   extra'')"
  unfolding example_prompt_def by code_simp

lemma example_trim: "TrimSpace ''a cat :9   extra'' = ''a cat :9   extra''"
  by code_simp

lemma example_extract:
  "snd (extractKeyValuePairsFromPrompt example_prompt) = ''a cat :9   extra''"
  "fst (extractKeyValuePairsFromPrompt example_prompt) ''ar'' = Some ''16''"
  "fst (extractKeyValuePairsFromPrompt example_prompt) ''zoom'' = None"
  "fst (extractKeyValuePairsFromPrompt example_prompt) ''step'' = Some ''30''"
  "fst (extractKeyValuePairsFromPrompt example_prompt) ''cfgscale'' = None"
  "fst (extractKeyValuePairsFromPrompt example_prompt) ''seed'' = Some ''42''"
  by (simp_all add: extractKeyValuePairsFromPrompt_def example_scan example_trim)

lemma example_ParseInt: "ParseInt ''16'' = Inr 16" "ParseInt ''30'' = Inr 30" "ParseInt ''42'' = Inr 42"
  "ParseInt ''9'' = Inr 9"
  by (simp_all add: ParseInt_def is_digit_def byte_of_def MinInt64_def MaxInt64_def Let_def)

lemma aspect_without_colon: "aspectRatioCalculation impl ''16'' w h = (w, h)"
  by (simp add: aspectRatioCalculation_def)

text \<open>
  Claim C6, at the input where the code departs from it. The claim: the prompt
  \<open>a cat --ar 16:9 --step 30 --seed 42 extra\<close> at 512 by 512 gives the prompt \<open>a cat extra\<close>, width
  912, height 512, 30 steps and seed 42. The value of a directive, as \<^verbatim>\<open>keyValue\<close> reads it,
  has no colon: the directive \<open>ar\<close> gets the value 16, the rest \<open>:9\<close> stays in the prompt, and
  \<^verbatim>\<open>aspectRatioCalculation\<close>, which wants two numbers, leaves the width at 512. Steps and
  seed are as claimed. (On \<open>16:9\<close> itself the calculation gives 912 by 512, see \<open>aspect_16_9\<close>.)
\<close>

theorem aspect_directive_lost:
  "snd (extractKeyValuePairsFromPrompt example_prompt) = ''a cat :9   extra''
   \<and> fst (extractKeyValuePairsFromPrompt example_prompt) ''ar'' = Some ''16''
   \<and> Prompt (processCurrentImagine_parameters parseFloat impl (Some 512) (Some 512) example_directive_item)
       = ''a cat :9   extra''
   \<and> Width (processCurrentImagine_parameters parseFloat impl (Some 512) (Some 512) example_directive_item) = 512
   \<and> Height (processCurrentImagine_parameters parseFloat impl (Some 512) (Some 512) example_directive_item) = 512
   \<and> Steps (processCurrentImagine_parameters parseFloat impl (Some 512) (Some 512) example_directive_item) = 30
   \<and> Seed (processCurrentImagine_parameters parseFloat impl (Some 512) (Some 512) example_directive_item) = 42"
proof -
  have p: "Prompt (new_generation (Some 512) (Some 512) example_directive_item) = example_prompt"
    by (simp add: new_generation_def example_directive_item_def example_item_def Let_def)
  have w: "Width (new_generation (Some 512) (Some 512) example_directive_item) = 512"
    "Height (new_generation (Some 512) (Some 512) example_directive_item) = 512"
    by (simp_all add: new_generation_def example_directive_item_def example_item_def Let_def)
  have a: "AspectRatio example_directive_item = []"
    by (simp add: example_directive_item_def example_item_def)
  show ?thesis
    by (simp add: processCurrentImagine_parameters_def Let_def p w a example_extract
        directive_ar_def hires_fix_def directive_zoom_def directive_step_def
        directive_cfgscale_def directive_seed_def example_ParseInt aspect_without_colon)
qed

lemma f64_round_eval:
  assumes pos: "0 < x" and e: "exponent_of x = e" and lo: "- 1022 \<le> e"
    and m: "round_half_even (x / pow2 (e - 52)) = m"
    and hi: "of_int m * pow2 (e - 52) < pow2 1024"
  shows "f64_round x = Fin (of_int m * pow2 (e - 52))"
proof -
  have q: "max (exponent_of \<bar>x\<bar>) (- 1022) - 52 = e - 52"
    using pos e lo by simp
  have a: "\<bar>x\<bar> = x" using pos by simp
  show ?thesis
    unfolding f64_round_def Let_def q
    using pos m hi by (simp add: a)
qed



lemma f64_round_9: "f64_round 9 = Fin 9"
proof -
  have "f64_round 9 = Fin (of_int 5066549580791808 * pow2 (3 - 52))"
  proof (rule f64_round_eval)
    show "exponent_of 9 = 3" by (simp add: exponent_of_def bitlen.simps pow2_def Let_def)
    show "round_half_even (9 / pow2 (3 - 52)) = 5066549580791808"
      by (simp add: pow2_def round_half_even_def Let_def)
    show "of_int 5066549580791808 * pow2 (3 - 52) < pow2 1024" by (simp add: pow2_def)
  qed simp_all
  then show ?thesis by (simp add: pow2_def)
qed

lemma f64_round_16: "f64_round 16 = Fin 16"
proof -
  have "f64_round 16 = Fin (of_int 4503599627370496 * pow2 (4 - 52))"
  proof (rule f64_round_eval)
    show "exponent_of 16 = 4" by (simp add: exponent_of_def bitlen.simps pow2_def Let_def)
    show "round_half_even (16 / pow2 (4 - 52)) = 4503599627370496"
      by (simp add: pow2_def round_half_even_def Let_def)
    show "of_int 4503599627370496 * pow2 (4 - 52) < pow2 1024" by (simp add: pow2_def)
  qed simp_all
  then show ?thesis by (simp add: pow2_def)
qed


lemma f64_round_512: "f64_round 512 = Fin 512"
proof -
  have "f64_round 512 = Fin (of_int 4503599627370496 * pow2 (9 - 52))"
  proof (rule f64_round_eval)
    show "exponent_of 512 = 9" by (simp add: exponent_of_def bitlen.simps pow2_def Let_def)
    show "round_half_even (512 / pow2 (9 - 52)) = 4503599627370496"
      by (simp add: pow2_def round_half_even_def Let_def)
    show "of_int 4503599627370496 * pow2 (9 - 52) < pow2 1024" by (simp add: pow2_def)
  qed simp_all
  then show ?thesis by (simp add: pow2_def)
qed

lemma f64_round_16_9: "f64_round (16 / 9) = Fin (2001599834386887 / 1125899906842624)"
proof -
  have "f64_round (16 / 9) = Fin (of_int 8006399337547548 * pow2 (0 - 52))"
  proof (rule f64_round_eval)
    show "exponent_of (16 / 9) = 0" by (simp add: exponent_of_def bitlen.simps pow2_def Let_def)
    show "round_half_even (16 / 9 / pow2 (0 - 52)) = 8006399337547548"
      by (simp add: pow2_def round_half_even_def Let_def)
    show "of_int 8006399337547548 * pow2 (0 - 52) < pow2 1024" by (simp add: pow2_def)
  qed simp_all
  then show ?thesis by (simp add: pow2_def)
qed

lemma f64_round_scaled: "f64_round (2001599834386887 / 2199023255552) = Fin (2001599834386887 / 2199023255552)"
proof -
  have "f64_round (2001599834386887 / 2199023255552) = Fin (of_int 8006399337547548 * pow2 (9 - 52))"
  proof (rule f64_round_eval)
    show "exponent_of (2001599834386887 / 2199023255552) = 9" by (simp add: exponent_of_def bitlen.simps pow2_def Let_def)
    show "round_half_even (2001599834386887 / 2199023255552 / pow2 (9 - 52)) = 8006399337547548"
      by (simp add: pow2_def round_half_even_def Let_def)
    show "of_int 8006399337547548 * pow2 (9 - 52) < pow2 1024" by (simp add: pow2_def)
  qed simp_all
  then show ?thesis by (simp add: pow2_def)
qed

lemma aspect_16_9: "aspectRatioCalculation impl ''16:9'' 512 512 = (912, 512)"
proof -
  have s: "split_on CHR '':'' ''16:9'' = [''16'', ''9'']" by simp
  have r: "f64_mul (f64_of_int 512) (f64_div (f64_of_int 16) (f64_of_int 9)) = Fin (2001599834386887 / 2199023255552)"
    by (simp add: f64_of_int_def f64_round_512 f64_round_16 f64_round_9 f64_round_16_9 f64_round_scaled)
  have t: "f64_to_int impl (Fin (2001599834386887 / 2199023255552)) = 910"
    by (simp add: f64_to_int_def MinInt64_def MaxInt64_def)
  have u: "round_up_8 910 = 912"
    by (simp add: round_up_8_def wrap64_def)
  show ?thesis
    by (simp add: aspectRatioCalculation_def s example_ParseInt r t u)
qed














lemma FindStringSubmatch_Some:
  "FindStringSubmatch m p = Some v \<Longrightarrow> \<exists>s n. m s = Some (v, n)"
  by (induction p) (auto split: option.splits)

lemma match_digits_group:
  "match_directive name group_digits s = Some (v, n) \<Longrightarrow> v \<noteq> [] \<and> list_all is_digit v"
proof -
  assume a: "match_directive name group_digits s = Some (v, n)"
  have tw: "\<And>xs. take (length (takeWhile is_digit xs)) xs = takeWhile is_digit xs"
    by (metis takeWhile_eq_take)
  from a obtain xs where "v = takeWhile is_digit xs" "length (takeWhile is_digit xs) \<noteq> 0"
    by (auto simp: match_directive_def group_digits_def Let_def tw split: if_splits)
  then show ?thesis
    by (auto simp: list_all_iff dest: set_takeWhileD)
qed

lemma seed_group_digits:
  "FindStringSubmatch seedRegex p = Some v \<Longrightarrow> v \<noteq> [] \<and> list_all is_digit v"
  using FindStringSubmatch_Some [of seedRegex p v] match_digits_group
  by (auto simp: seedRegex_def)

lemma ParseInt_digits:
  assumes "v \<noteq> []" "list_all is_digit v"
  shows "ParseInt v = (if MaxInt64 < int (digits_value 0 v) then Inl ErrRange
                       else Inr (int (digits_value 0 v)))"
proof -
  from assms have "is_digit (hd v)" by (cases v) simp_all
  then have "hd v \<noteq> CHR ''+''" "hd v \<noteq> CHR ''-''"
    by (auto simp: is_digit_def byte_of_def)
  with assms show ?thesis
    by (simp add: ParseInt_def Let_def MinInt64_def MaxInt64_def)
qed






lemma seed_range_error:
  assumes f: "FindStringSubmatch seedRegex prompt = Some v" and p: "ParseInt v = Inl e"
  shows "extractSeedFromPrompt prompt d = Inl e \<and> e = ErrRange
      \<and> MaxInt64 < int (digits_value 0 v)"
proof -
  from seed_group_digits [OF f] p have "e = ErrRange" "MaxInt64 < int (digits_value 0 v)"
    by (auto simp: ParseInt_digits split: if_splits)
  with f p show ?thesis
    by (simp add: extractSeedFromPrompt_def Let_def)
qed




end
